theory Spec2Isabelle
  imports Main "HOL-Library.Word"
begin

unbundle bit_operations_syntax

section \<open>The Transmission RPC adapter of libtorrent-webui\<close>

text \<open>
  A shallow embedding of \<^verbatim>\<open>src/transmission_webui.cpp\<close>. The C++ types
  \<^verbatim>\<open>int\<close>, \<^verbatim>\<open>std::uint32_t\<close> and \<^verbatim>\<open>std::int64_t\<close> are
  32-bit and 64-bit words; signed comparisons and divisions read them with \<open>sint\<close>.
\<close>

type_synonym c_int = "32 word"
type_synonym uint32 = "32 word"
type_synonym int64 = "64 word"

subsection \<open>C integer arithmetic\<close>

datatype fault = Division_by_zero | Null_dereference | Engine_exception

text \<open>Signed comparison of C \<^verbatim>\<open>int\<close> values.\<close>

definition int_le :: "'a::len word \<Rightarrow> 'a word \<Rightarrow> bool" where
  "int_le a b = (sint a \<le> sint b)"

definition int_less :: "'a::len word \<Rightarrow> 'a word \<Rightarrow> bool" where
  "int_less a b = (sint a < sint b)"

text \<open>
  C's \<^verbatim>\<open>/\<close> on signed integers rounds towards zero and traps on a zero divisor.
\<close>

definition c_quot :: "int \<Rightarrow> int \<Rightarrow> int" where
  "c_quot n d = (if (n < 0) = (d < 0) then \<bar>n\<bar> div \<bar>d\<bar> else - (\<bar>n\<bar> div \<bar>d\<bar>))"

definition int_div :: "'a::len word \<Rightarrow> 'a word \<Rightarrow> 'a word" where
  "int_div a b = word_of_int (c_quot (sint a) (sint b))"

definition c_div :: "'a::len word \<Rightarrow> 'a word \<Rightarrow> fault + 'a word" where
  "c_div a b = (if b = 0 then Inl Division_by_zero else Inr (int_div a b))"

subsection \<open>Request tokens and accessors\<close>

text \<open>
  The parser hands the adapter an array of \<^verbatim>\<open>jsmntok_t\<close> over the request body: every
  token has a type, a span of the body and a number of children, and an object or array is
  followed by its children. The model keeps the tree of tokens; strings and primitives
  carry the text of their span. Keys of an object are string tokens.
\<close>

datatype jsmntok =
    JObject "(string \<times> jsmntok) list"
  | JArray "jsmntok list"
  | JString string
  | JPrimitive string

datatype jsmntype = JSMN_PRIMITIVE | JSMN_OBJECT | JSMN_ARRAY | JSMN_STRING

fun tok_type :: "jsmntok \<Rightarrow> jsmntype" where
  "tok_type (JObject kvs) = JSMN_OBJECT"
| "tok_type (JArray xs) = JSMN_ARRAY"
| "tok_type (JString s) = JSMN_STRING"
| "tok_type (JPrimitive s) = JSMN_PRIMITIVE"

text \<open>\<^verbatim>\<open>size\<close> of a token: the number of child tokens (keys and values of an object).\<close>

fun tok_size :: "jsmntok \<Rightarrow> nat" where
  "tok_size (JObject kvs) = 2 * length kvs"
| "tok_size (JArray xs) = length xs"
| "tok_size (JString s) = 0"
| "tok_size (JPrimitive s) = 0"

fun commas :: "string list \<Rightarrow> string" where
  "commas [] = []"
| "commas [x] = x"
| "commas (x # y # ys) = x @ '','' @ commas (y # ys)"

text \<open>
  The text of the body between \<^verbatim>\<open>start\<close> and \<^verbatim>\<open>end\<close> of a token. For a string
  this is the text between the quotes. The body of a request is taken to be written
  without white space, so the span of an object or array is its compact rendering.
\<close>

fun tok_raw :: "jsmntok \<Rightarrow> string" where
  "tok_raw (JObject kvs) =
     ''{'' @ commas (map (\<lambda>kv. [CHR 0x22] @ fst kv @ [CHR 0x22] @ '':'' @ tok_raw (snd kv)) kvs)
       @ ''}''"
| "tok_raw (JArray xs) = ''['' @ commas (map tok_raw xs) @ '']''"
| "tok_raw (JString s) = [CHR 0x22] @ s @ [CHR 0x22]"
| "tok_raw (JPrimitive s) = s"

fun tok_text :: "jsmntok \<Rightarrow> string" where
  "tok_text (JString s) = s"
| "tok_text t = tok_raw t"

text \<open>The token array in document order: a token, then the tokens of its children.\<close>

fun subtree :: "jsmntok \<Rightarrow> jsmntok list" where
  "subtree (JObject kvs) =
     JObject kvs # concat (map (\<lambda>kv. JString (fst kv) # subtree (snd kv)) kvs)"
| "subtree (JArray xs) = JArray xs # concat (map subtree xs)"
| "subtree (JString s) = [JString s]"
| "subtree (JPrimitive s) = [JPrimitive s]"

text \<open>
  \<^verbatim>\<open>&ent[i+1]\<close> for \<^verbatim>\<open>i < ent->size\<close>, as \<^verbatim>\<open>parse_ids\<close> and \<^verbatim>\<open>get_torrent\<close>
  index the elements of an array: the \<open>size\<close> tokens that follow the array token. They
  are the elements themselves when no element has children.
\<close>

definition following_tokens :: "jsmntok \<Rightarrow> jsmntok list" where
  "following_tokens ent = take (tok_size ent) (tl (subtree ent))"

text \<open>
  \<^verbatim>\<open>item = ent + 1; ...; item = skip_item(item)\<close> for \<^verbatim>\<open>i < ent->size\<close>, as
  \<^verbatim>\<open>set_torrent\<close> walks an array: its elements.
\<close>

fun array_items :: "jsmntok \<Rightarrow> jsmntok list" where
  "array_items (JArray xs) = xs"
| "array_items t = []"

text \<open>
  Modelled from the spec: \<^verbatim>\<open>json_util.hpp\<close> (\<^verbatim>\<open>find_key\<close>, \<^verbatim>\<open>find_string\<close>,
  \<^verbatim>\<open>find_int\<close>, \<^verbatim>\<open>find_bool\<close>) is not part of the sources. Section 4.1:
  \<^verbatim>\<open>find_key\<close> searches the immediate children of the root for a string child whose
  content equals the key and returns the value token that follows if its type is the
  expected one, else none. The wrappers read the value's text; a missing value reads as
  the empty string, \<open>0\<close> or \<open>false\<close> (\<^verbatim>\<open>parse_ids\<close> relies on \<open>0\<close> for a missing
  \<^verbatim>\<open>ids\<close>). A missing root (\<^verbatim>\<open>arguments\<close> is optional) has no children.
\<close>

fun find_key :: "jsmntok option \<Rightarrow> string \<Rightarrow> jsmntype \<Rightarrow> jsmntok option" where
  "find_key (Some (JObject kvs)) key ty =
     (case map_of kvs key of
        None \<Rightarrow> None
      | Some v \<Rightarrow> (if tok_type v = ty then Some v else None))"
| "find_key root key ty = None"

fun is_digit :: "char \<Rightarrow> bool" where
  "is_digit c = (48 \<le> (of_char c :: nat) \<and> (of_char c :: nat) \<le> 57)"

fun digit_val :: "char \<Rightarrow> int" where
  "digit_val c = int (of_char c) - 48"

fun digits_value :: "int \<Rightarrow> string \<Rightarrow> int" where
  "digits_value acc [] = acc"
| "digits_value acc (c # cs) =
     (if is_digit c then digits_value (10 * acc + digit_val c) cs else acc)"

fun is_space :: "char \<Rightarrow> bool" where
  "is_space c = ((of_char c :: nat) = 32 \<or> (9 \<le> (of_char c :: nat) \<and> (of_char c :: nat) \<le> 13))"

text \<open>
  The decimal integer at the head of a C string, as \<^verbatim>\<open>atoi\<close> and \<^verbatim>\<open>strtoll\<close> read
  it: white space, an optional sign, digits; \<open>0\<close> when there is no digit.
\<close>

definition parse_decimal :: "string \<Rightarrow> int" where
  "parse_decimal s =
     (case dropWhile is_space s of
        [] \<Rightarrow> 0
      | c # cs \<Rightarrow>
          if c = CHR ''-'' then - digits_value 0 cs
          else if c = CHR ''+'' then digits_value 0 cs
          else digits_value 0 (c # cs))"

text \<open>
  \<^verbatim>\<open>strtol\<close>: a value outside \<^verbatim>\<open>long\<close> (64 bits) is replaced by the nearest
  bound. \<^verbatim>\<open>atoi\<close> is \<^verbatim>\<open>strtol\<close> cut to \<^verbatim>\<open>int\<close>, the low 32 bits: a text
  beyond the upper bound reads as -1, one below the lower bound as 0.
\<close>

definition strtol :: "string \<Rightarrow> int64" where
  "strtol s =
     word_of_int (max (- 9223372036854775808) (min 9223372036854775807 (parse_decimal s)))"

definition atoi :: "string \<Rightarrow> c_int" where
  "atoi s = ucast (strtol s)"

definition find_string :: "jsmntok option \<Rightarrow> string \<Rightarrow> string \<times> bool" where
  "find_string args key =
     (case find_key args key JSMN_STRING of
        None \<Rightarrow> ([], False)
      | Some k \<Rightarrow> (tok_text k, True))"

definition find_int :: "jsmntok option \<Rightarrow> string \<Rightarrow> int64 \<times> bool" where
  "find_int args key =
     (case find_key args key JSMN_PRIMITIVE of
        None \<Rightarrow> (0, False)
      | Some k \<Rightarrow> (word_of_int (parse_decimal (tok_text k)), True))"

definition find_bool :: "jsmntok option \<Rightarrow> string \<Rightarrow> bool" where
  "find_bool args key =
     (case find_key args key JSMN_PRIMITIVE of
        None \<Rightarrow> False
      | Some k \<Rightarrow> tok_text k = ''true'')"

subsection \<open>The response buffer\<close>

text \<open>
  \<^verbatim>\<open>appendf\<close> appends formatted text to the buffer. \<open>fmt_d\<close>, \<open>fmt_u\<close> and
  \<open>fmt_i64\<close> are the conversions \<^verbatim>\<open>%d\<close>, \<^verbatim>\<open>%u\<close> and \<^verbatim>\<open>PRId64\<close>.
\<close>

fun dec_nat :: "nat \<Rightarrow> string" where
  "dec_nat n =
     (if n < 10 then [''0123456789'' ! n]
      else dec_nat (n div 10) @ [''0123456789'' ! (n mod 10)])"

declare dec_nat.simps [simp del]

definition dec_int :: "int \<Rightarrow> string" where
  "dec_int i = (if i < 0 then ''-'' @ dec_nat (nat (- i)) else dec_nat (nat i))"

definition fmt_d :: "c_int \<Rightarrow> string" where
  "fmt_d v = dec_int (sint v)"

definition fmt_u :: "uint32 \<Rightarrow> string" where
  "fmt_u v = dec_nat (unat v)"

definition fmt_i64 :: "int64 \<Rightarrow> string" where
  "fmt_i64 v = dec_int (sint v)"

text \<open>
  \<^verbatim>\<open>%d\<close> given a 64-bit argument, as the \<^verbatim>\<open>eta\<close> field and
  \<^verbatim>\<open>secondsActive\<close> pass it: the conversion reads an \<^verbatim>\<open>int\<close>, which is the low 32
  bits of the argument.
\<close>

definition fmt_d_wide :: "int64 \<Rightarrow> string" where
  "fmt_d_wide v = fmt_d (ucast v)"

definition to_bool :: "bool \<Rightarrow> string" where
  "to_bool b = (if b then ''true'' else ''false'')"

text \<open>\<^verbatim>\<open>return_failure\<close>: the buffer is cleared and holds the failure envelope only.\<close>

definition return_failure :: "string \<Rightarrow> string \<Rightarrow> int64 \<Rightarrow> string" where
  "return_failure buf msg tag =
     ''{ '' @ [CHR 0x22] @ ''result'' @ [CHR 0x22] @ '': '' @ [CHR 0x22] @ msg @ [CHR 0x22]
       @ '', '' @ [CHR 0x22] @ ''tag'' @ [CHR 0x22] @ '': '' @ fmt_i64 tag @ ''}''"

subsection \<open>Engine data: torrent status\<close>

text \<open>
  Modelled from the spec: the enumeration \<^verbatim>\<open>torrent_status::state_t\<close> is declared in
  the engine's headers, which are not part of the sources. The states are the ones the
  adapter and section 4.6 of the specification name; \<open>queued_for_checking\<close> is the
  engine state that none of the \<^verbatim>\<open>case\<close> labels of \<^verbatim>\<open>torrent_tr_status\<close> lists.
\<close>

datatype state_t =
    queued_for_checking
  | checking_files
  | downloading_metadata
  | downloading
  | finished
  | seeding
  | allocating
  | checking_resume_data

text \<open>The fields of \<^verbatim>\<open>torrent_status\<close> that the adapter reads as numbers or flags.\<close>

record torrent_status =
  paused :: bool
  auto_managed :: bool
  state :: state_t
  download_payload_rate :: c_int
  total_wanted :: int64
  total_wanted_done :: int64

text \<open>The wire values of \<^verbatim>\<open>enum tr_status_t\<close>.\<close>

definition TR_STATUS_STOPPED :: c_int where "TR_STATUS_STOPPED = 0"
definition TR_STATUS_CHECK_WAIT :: c_int where "TR_STATUS_CHECK_WAIT = 1"
definition TR_STATUS_CHECK :: c_int where "TR_STATUS_CHECK = 2"
definition TR_STATUS_DOWNLOAD_WAIT :: c_int where "TR_STATUS_DOWNLOAD_WAIT = 3"
definition TR_STATUS_DOWNLOAD :: c_int where "TR_STATUS_DOWNLOAD = 4"
definition TR_STATUS_SEED_WAIT :: c_int where "TR_STATUS_SEED_WAIT = 5"
definition TR_STATUS_SEED :: c_int where "TR_STATUS_SEED = 6"

text \<open>
  \<^verbatim>\<open>torrent_tr_status\<close>. The \<^verbatim>\<open>checking_resume_data\<close> case assigns the local
  \<^verbatim>\<open>res\<close> and leaves the \<^verbatim>\<open>switch\<close>; the statement after the \<^verbatim>\<open>switch\<close> is
  \<^verbatim>\<open>return TR_STATUS_STOPPED\<close>, which does not read \<^verbatim>\<open>res\<close>. The
  \<^verbatim>\<open>default\<close> label holds an assertion only (compiled out in release builds) and falls
  to the same \<^verbatim>\<open>return\<close>.
\<close>

definition torrent_tr_status :: "'a torrent_status_scheme \<Rightarrow> c_int" where
  "torrent_tr_status ts =
     (if paused ts \<and> \<not> auto_managed ts then TR_STATUS_STOPPED
      else case state ts of
          checking_resume_data \<Rightarrow> TR_STATUS_STOPPED
        | checking_files \<Rightarrow> (if paused ts then TR_STATUS_CHECK_WAIT else TR_STATUS_CHECK)
        | downloading_metadata \<Rightarrow>
            (if paused ts then TR_STATUS_DOWNLOAD_WAIT else TR_STATUS_DOWNLOAD)
        | downloading \<Rightarrow> (if paused ts then TR_STATUS_DOWNLOAD_WAIT else TR_STATUS_DOWNLOAD)
        | allocating \<Rightarrow> (if paused ts then TR_STATUS_DOWNLOAD_WAIT else TR_STATUS_DOWNLOAD)
        | seeding \<Rightarrow> (if paused ts then TR_STATUS_SEED_WAIT else TR_STATUS_SEED)
        | finished \<Rightarrow> (if paused ts then TR_STATUS_SEED_WAIT else TR_STATUS_SEED)
        | queued_for_checking \<Rightarrow> TR_STATUS_STOPPED)"

text \<open>
  The mapping as section 4.6 of the specification words it, for comparison with
  \<open>torrent_tr_status\<close>: stopped when paused and not auto-managed; then
  \<^verbatim>\<open>checking_resume_data\<close> is check; \<^verbatim>\<open>checking_files\<close> is check-wait when paused,
  else check; the three downloading states are download-wait when paused, else download;
  \<^verbatim>\<open>seeding\<close> and \<^verbatim>\<open>finished\<close> are seed-wait when paused, else seed; any other
  state is stopped.
\<close>

definition tr_status_spec :: "'a torrent_status_scheme \<Rightarrow> c_int" where
  "tr_status_spec ts =
     (if paused ts \<and> \<not> auto_managed ts then 0
      else if state ts = checking_resume_data then 2
      else if state ts = checking_files then (if paused ts then 1 else 2)
      else if state ts = downloading_metadata \<or> state ts = downloading
              \<or> state ts = allocating
      then (if paused ts then 3 else 4)
      else if state ts = seeding \<or> state ts = finished then (if paused ts then 5 else 6)
      else 0)"

subsection \<open>Engine data: settings, torrents, session\<close>

text \<open>
  Modelled from the spec: the engine (session, torrent handles, settings pack,
  encryption policy) is an external collaborator whose headers are not part of the
  sources. Section 6.2 lists the capabilities the adapter consumes; each is a function on
  the engine state below, and every call is also appended to \<open>calls\<close>, the trace of what
  the adapter asked of the engine.
\<close>

datatype setting =
    cache_size | active_downloads | active_seeds | download_rate_limit | upload_rate_limit
  | connections_limit | enable_outgoing_utp | enable_incoming_utp | user_agent

text \<open>A \<^verbatim>\<open>settings_pack\<close> holds the settings that were set on it, latest first.\<close>

record settings_pack =
  pack_ints :: "(setting \<times> c_int) list"
  pack_bools :: "(setting \<times> bool) list"

definition empty_pack :: settings_pack where
  "empty_pack = \<lparr>pack_ints = [], pack_bools = []\<rparr>"

definition set_int :: "setting \<Rightarrow> c_int \<Rightarrow> settings_pack \<Rightarrow> settings_pack" where
  "set_int k v pack = pack\<lparr>pack_ints := (k, v) # pack_ints pack\<rparr>"

definition set_bool :: "setting \<Rightarrow> bool \<Rightarrow> settings_pack \<Rightarrow> settings_pack" where
  "set_bool k v pack = pack\<lparr>pack_bools := (k, v) # pack_bools pack\<rparr>"

datatype enc_policy = forced | enabled | disabled
datatype enc_level = plaintext | rc4 | both

record pe_settings =
  out_enc_policy :: enc_policy
  in_enc_policy :: enc_policy
  allowed_enc_level :: enc_level
  prefer_rc4 :: bool

record announce_entry =
  ae_url :: string
  ae_tier :: "8 word"

text \<open>\<^verbatim>\<open>announce_entry(url)\<close>: a new entry of tier 0.\<close>

definition new_announce_entry :: "string \<Rightarrow> announce_entry" where
  "new_announce_entry u = \<lparr>ae_url = u, ae_tier = 0\<rparr>"

datatype torrent_info = Torrent_info string

text \<open>
  \<^verbatim>\<open>add_torrent_params\<close>. The two flag bits are the engine's
  \<^verbatim>\<open>flag_paused\<close> and \<^verbatim>\<open>flag_auto_managed\<close>.
\<close>

record add_torrent_params =
  flags :: "64 word"
  save_path :: string
  url :: string
  ti :: "torrent_info option"

definition flag_paused :: "64 word" where "flag_paused = 0x020"
definition flag_auto_managed :: "64 word" where "flag_auto_managed = 0x040"

text \<open>
  A torrent of the session: its status snapshot (\<^verbatim>\<open>torrent_status\<close>) and what its
  handle answers. \<open>handle_id\<close> is \<^verbatim>\<open>torrent_handle::id()\<close>, \<open>hash_string\<close> the
  info-hash in hexadecimal, \<open>storage_path\<close> is \<^verbatim>\<open>torrent_status::save_path\<close>.
\<close>

record torrent = torrent_status +
  handle_id :: uint32
  name :: string
  hash_string :: string
  storage_path :: string
  download_limit :: c_int
  upload_limit :: c_int
  max_connections :: c_int
  trackers :: "announce_entry list"
  file_priorities :: "c_int list"

record session_status =
  num_torrents :: c_int
  num_paused_torrents :: c_int
  payload_download_rate :: c_int
  payload_upload_rate :: c_int
  total_payload_upload :: int64
  total_payload_download :: int64

datatype engine_call =
    Add_torrent add_torrent_params
  | Remove_torrent uint32 bool
  | Get_torrents
  | Get_torrent_status
  | Handle_status uint32
  | Session_status
  | Get_settings
  | Get_pe_settings
  | Listen_port
  | Listen_on c_int c_int
  | Apply_settings settings_pack
  | Set_download_limit uint32 c_int
  | Set_upload_limit uint32 c_int
  | Move_storage uint32 string
  | Set_max_connections uint32 c_int
  | Trackers uint32
  | Replace_trackers uint32 "announce_entry list"
  | File_priorities uint32
  | Prioritize_files uint32 "c_int list"
  | Auto_managed uint32 bool
  | Resume uint32
  | Pause uint32
  | Force_recheck uint32
  | Force_reannounce uint32

record session =
  torrents :: "torrent list"
  int_setting :: "setting \<Rightarrow> c_int"
  bool_setting :: "setting \<Rightarrow> bool"
  str_setting :: "setting \<Rightarrow> string"
  pe :: pe_settings
  listen_port :: "16 word"
  status :: session_status
  calls :: "engine_call list"

text \<open>
  What the adapter needs from outside and the sources do not define: helpers of other
  files (\<^verbatim>\<open>escape_json\<close>, \<^verbatim>\<open>base64decode\<close>, \<^verbatim>\<open>free_disk_space\<close>), the clock, and
  choices of the engine. \<open>load_torrent_file\<close> and \<open>parse_torrent_buffer\<close> are the two
  \<^verbatim>\<open>torrent_info\<close> constructors (\<open>Inl\<close> the error message); \<open>new_torrent\<close> is the torrent
  the engine creates for \<^verbatim>\<open>session::add_torrent\<close> (\<open>None\<close>: the call throws);
  \<open>listen_result\<close> is the port the engine listens on after \<^verbatim>\<open>listen_on\<close>;
  \<open>ext_property\<close> is the formatted value of a \<^verbatim>\<open>torrent-get\<close> field whose source is
  engine data outside this model (metadata, times, floating point, peers, files);
  \<open>overflowed_mul_div\<close> is what the compiled \<^verbatim>\<open>a * b / d\<close> on \<^verbatim>\<open>int\<close> yields
  when the product does not fit, which the language leaves undefined.
\<close>

record env =
  escape_json :: "string \<Rightarrow> string"
  base64decode :: "string \<Rightarrow> string"
  load_torrent_file :: "string \<Rightarrow> string + torrent_info"
  parse_torrent_buffer :: "string \<Rightarrow> string + torrent_info"
  new_torrent :: "add_torrent_params \<Rightarrow> torrent list \<Rightarrow> torrent option"
  listen_result :: "c_int \<Rightarrow> c_int \<Rightarrow> 16 word"
  free_disk_space :: "string \<Rightarrow> int64"
  time_now :: int64
  ext_property :: "string \<Rightarrow> torrent \<Rightarrow> string"
  overflowed_mul_div :: "c_int \<Rightarrow> c_int \<Rightarrow> c_int \<Rightarrow> c_int"

text \<open>
  \<^verbatim>\<open>a * b / d\<close> on \<^verbatim>\<open>int\<close>, as the cache size conversions compute it.
\<close>

definition int_mul_div :: "env \<Rightarrow> c_int \<Rightarrow> c_int \<Rightarrow> c_int \<Rightarrow> c_int" where
  "int_mul_div e a b d =
     (if - 2147483648 \<le> sint a * sint b \<and> sint a * sint b \<le> 2147483647
      then int_div (a * b) d
      else overflowed_mul_div e a b d)"

subsection \<open>Engine operations\<close>

definition log_call :: "engine_call \<Rightarrow> session \<Rightarrow> session" where
  "log_call c s = s\<lparr>calls := calls s @ [c]\<rparr>"

definition update_torrent :: "uint32 \<Rightarrow> (torrent \<Rightarrow> torrent) \<Rightarrow> session \<Rightarrow> session" where
  "update_torrent h f s =
     s\<lparr>torrents := map (\<lambda>t. if handle_id t = h then f t else t) (torrents s)\<rparr>"

definition find_torrent :: "uint32 \<Rightarrow> session \<Rightarrow> torrent option" where
  "find_torrent h s = find (\<lambda>t. handle_id t = h) (torrents s)"

definition set_download_limit :: "uint32 \<Rightarrow> c_int \<Rightarrow> session \<Rightarrow> session" where
  "set_download_limit h v s =
     log_call (Set_download_limit h v) (update_torrent h (\<lambda>t. t\<lparr>download_limit := v\<rparr>) s)"

definition set_upload_limit :: "uint32 \<Rightarrow> c_int \<Rightarrow> session \<Rightarrow> session" where
  "set_upload_limit h v s =
     log_call (Set_upload_limit h v) (update_torrent h (\<lambda>t. t\<lparr>upload_limit := v\<rparr>) s)"

definition move_storage :: "uint32 \<Rightarrow> string \<Rightarrow> session \<Rightarrow> session" where
  "move_storage h loc s =
     log_call (Move_storage h loc) (update_torrent h (\<lambda>t. t\<lparr>storage_path := loc\<rparr>) s)"

definition set_max_connections :: "uint32 \<Rightarrow> c_int \<Rightarrow> session \<Rightarrow> session" where
  "set_max_connections h v s =
     log_call (Set_max_connections h v) (update_torrent h (\<lambda>t. t\<lparr>max_connections := v\<rparr>) s)"

definition handle_trackers :: "uint32 \<Rightarrow> session \<Rightarrow> announce_entry list" where
  "handle_trackers h s = (case find_torrent h s of None \<Rightarrow> [] | Some t \<Rightarrow> trackers t)"

definition replace_trackers :: "uint32 \<Rightarrow> announce_entry list \<Rightarrow> session \<Rightarrow> session" where
  "replace_trackers h trs s =
     log_call (Replace_trackers h trs) (update_torrent h (\<lambda>t. t\<lparr>trackers := trs\<rparr>) s)"

definition handle_file_priorities :: "uint32 \<Rightarrow> session \<Rightarrow> c_int list" where
  "handle_file_priorities h s =
     (case find_torrent h s of None \<Rightarrow> [] | Some t \<Rightarrow> file_priorities t)"

definition prioritize_files :: "uint32 \<Rightarrow> c_int list \<Rightarrow> session \<Rightarrow> session" where
  "prioritize_files h prio s =
     log_call (Prioritize_files h prio)
       (update_torrent h (\<lambda>t. t\<lparr>file_priorities := prio\<rparr>) s)"

definition set_auto_managed :: "uint32 \<Rightarrow> bool \<Rightarrow> session \<Rightarrow> session" where
  "set_auto_managed h b s =
     log_call (Auto_managed h b) (update_torrent h (\<lambda>t. t\<lparr>auto_managed := b\<rparr>) s)"

definition resume :: "uint32 \<Rightarrow> session \<Rightarrow> session" where
  "resume h s = log_call (Resume h) (update_torrent h (\<lambda>t. t\<lparr>paused := False\<rparr>) s)"

definition pause :: "uint32 \<Rightarrow> session \<Rightarrow> session" where
  "pause h s = log_call (Pause h) (update_torrent h (\<lambda>t. t\<lparr>paused := True\<rparr>) s)"

definition force_recheck :: "uint32 \<Rightarrow> session \<Rightarrow> session" where
  "force_recheck h s = log_call (Force_recheck h) s"

definition force_reannounce :: "uint32 \<Rightarrow> session \<Rightarrow> session" where
  "force_reannounce h s = log_call (Force_reannounce h) s"

definition session_remove_torrent :: "uint32 \<Rightarrow> bool \<Rightarrow> session \<Rightarrow> session" where
  "session_remove_torrent h delete_files s =
     log_call (Remove_torrent h delete_files)
       (s\<lparr>torrents := filter (\<lambda>t. handle_id t \<noteq> h) (torrents s)\<rparr>)"

definition apply_settings :: "settings_pack \<Rightarrow> session \<Rightarrow> session" where
  "apply_settings pack s =
     log_call (Apply_settings pack)
       (s\<lparr>int_setting := (\<lambda>k. case map_of (pack_ints pack) k of
                                  None \<Rightarrow> int_setting s k | Some v \<Rightarrow> v),
          bool_setting := (\<lambda>k. case map_of (pack_bools pack) k of
                                  None \<Rightarrow> bool_setting s k | Some v \<Rightarrow> v)\<rparr>)"

definition listen_on :: "env \<Rightarrow> c_int \<Rightarrow> c_int \<Rightarrow> session \<Rightarrow> session" where
  "listen_on e lo hi s =
     log_call (Listen_on lo hi) (s\<lparr>listen_port := listen_result e lo hi\<rparr>)"

subsection \<open>The adapter\<close>

text \<open>
  The persistent settings store behind \<^verbatim>\<open>save_settings_interface\<close>: the values written
  (latest first) and how often \<^verbatim>\<open>save\<close> was called.
\<close>

record save_settings =
  str_values :: "(string \<times> string) list"
  int_values :: "(string \<times> c_int) list"
  saves :: nat

record adapter =
  m_ses :: session
  m_settings :: "save_settings option"
  m_params_model :: add_torrent_params
  m_start_time :: int64

text \<open>
  \<^verbatim>\<open>permissions_interface\<close>. The argument of the two settings predicates is a
  \<^verbatim>\<open>settings_pack\<close> enumerator, or \<open>None\<close> for the \<open>-1\<close> the adapter passes for
  settings that are its own.
\<close>

record permissions_interface =
  allow_start :: bool
  allow_stop :: bool
  allow_recheck :: bool
  allow_list :: bool
  allow_add :: bool
  allow_remove :: bool
  allow_session_status :: bool
  allow_get_settings :: "setting option \<Rightarrow> bool"
  allow_set_settings :: "setting option \<Rightarrow> bool"

definition on_session :: "(session \<Rightarrow> session) \<Rightarrow> adapter \<Rightarrow> adapter" where
  "on_session f st = st\<lparr>m_ses := f (m_ses st)\<rparr>"

type_synonym handler_result = "fault + (string \<times> adapter)"

definition quoted :: "string \<Rightarrow> string" where
  "quoted s = [CHR 0x22] @ s @ [CHR 0x22]"

text \<open>The envelope that the handlers without a result document append.\<close>

definition success_empty :: "int64 \<Rightarrow> string" where
  \<open>success_empty tag =
     ''{ "result": "success", "tag": '' @ fmt_i64 tag @ '', "arguments": {} }''\<close>

subsection \<open>Selecting torrents\<close>

text \<open>
  \<^verbatim>\<open>parse_ids\<close>: the set of ids, as a list. An \<^verbatim>\<open>ids\<close> array contributes the
  \<^verbatim>\<open>atoi\<close> of each of the tokens that follow it; otherwise an integer \<^verbatim>\<open>ids\<close> other
  than 0 contributes itself.
\<close>

definition parse_ids :: "jsmntok option \<Rightarrow> uint32 list" where
  "parse_ids args =
     (case find_key args ''ids'' JSMN_ARRAY of
        Some ids_ent \<Rightarrow> map (\<lambda>item. atoi (tok_text item)) (following_tokens ids_ent)
      | None \<Rightarrow>
          (let i = fst (find_int args ''ids'')
           in if i = 0 then [] else [ucast i]))"

text \<open>
  \<^verbatim>\<open>get_torrents\<close>: the handles of all torrents when no id is given, else the handles
  whose id is listed, each inserted at the front of the result.
\<close>

definition get_torrents :: "adapter \<Rightarrow> jsmntok option \<Rightarrow> uint32 list \<times> adapter" where
  "get_torrents st args =
     (let h = map handle_id (torrents (m_ses st));
          st' = on_session (log_call Get_torrents) st;
          torrent_ids = parse_ids args
      in if torrent_ids = [] then (h, st')
         else (rev (filter (\<lambda>i. i \<in> set torrent_ids) h), st'))"

subsection \<open>\<^verbatim>\<open>torrent-add\<close>\<close>

text \<open>
  The parameters \<^verbatim>\<open>add_torrent\<close> prepares from the template before it looks at the
  source of the torrent: the save path and the two flags.
\<close>

definition prepare_params :: "adapter \<Rightarrow> jsmntok option \<Rightarrow> add_torrent_params" where
  "prepare_params st args =
     (let params = m_params_model st;
          sp = fst (find_string args ''download-dir'');
          params = (if sp \<noteq> [] then params\<lparr>save_path := sp\<rparr> else params);
          paused = find_bool args ''paused''
      in if paused
         then params\<lparr>flags := (flags params OR flag_paused) AND NOT flag_auto_managed\<rparr>
         else params\<lparr>flags := (flags params AND NOT flag_paused) OR flag_auto_managed\<rparr>)"

text \<open>
  \<^verbatim>\<open>m_ses.add_torrent(params)\<close>, \<^verbatim>\<open>h.status(query_name)\<close> and the success
  envelope. The \<^verbatim>\<open>error_code\<close> tested after the call is never passed to the engine, so
  the test cannot fail; the overload called throws instead.
\<close>

definition session_add_torrent ::
  "env \<Rightarrow> adapter \<Rightarrow> string \<Rightarrow> int64 \<Rightarrow> add_torrent_params \<Rightarrow> handler_result" where
  \<open>session_add_torrent e st buf tag params =
     (case new_torrent e params (torrents (m_ses st)) of
        None \<Rightarrow> Inl Engine_exception
      | Some t \<Rightarrow>
          (let ses = log_call (Add_torrent params) ((m_ses st)\<lparr>torrents := torrents (m_ses st) @ [t]\<rparr>);
               ses = log_call (Handle_status (handle_id t)) ses
           in Inr (buf @ ''{ "result": "success", "tag": '' @ fmt_i64 tag
                     @ '', "arguments": { "torrent-added": { "hashString": ''
                     @ quoted (hash_string t) @ '', "id": '' @ fmt_u (handle_id t)
                     @ '', "name": '' @ quoted (escape_json e (name t)) @ ''}}}'',
                   st\<lparr>m_ses := ses\<rparr>)))\<close>

definition add_torrent ::
  "env \<Rightarrow> adapter \<Rightarrow> string \<Rightarrow> jsmntok option \<Rightarrow> int64 \<Rightarrow> permissions_interface
     \<Rightarrow> handler_result" where
  "add_torrent e st buf args tag p =
     (if \<not> allow_add p then Inr (return_failure buf ''permission denied'' tag, st)
      else
        let params = prepare_params st args;
            u = fst (find_string args ''filename'')
        in if take 7 u = ''http://'' \<or> take 8 u = ''https://'' \<or> take 7 u = ''magnet:''
           then session_add_torrent e st buf tag (params\<lparr>url := u\<rparr>)
           else if u \<noteq> []
           then (case load_torrent_file e u of
                   Inl msg \<Rightarrow> Inr (return_failure buf msg tag, st)
                 | Inr info \<Rightarrow> session_add_torrent e st buf tag (params\<lparr>ti := Some info\<rparr>))
           else (case parse_torrent_buffer e
                        (base64decode e (fst (find_string args ''metainfo''))) of
                   Inl msg \<Rightarrow> Inr (return_failure buf msg tag, st)
                 | Inr info \<Rightarrow> session_add_torrent e st buf tag (params\<lparr>ti := Some info\<rparr>)))"

subsection \<open>\<^verbatim>\<open>torrent-get\<close>\<close>

text \<open>
  The \<^verbatim>\<open>eta\<close> property: the conditional expression of the source, whose type is
  \<^verbatim>\<open>std::int64_t\<close>; the rate is converted to 64 bits for the division.
\<close>

definition eta :: "'a torrent_status_scheme \<Rightarrow> fault + int64" where
  "eta ts =
     (if int_le (download_payload_rate ts) 0 then Inr (- 1)
      else c_div (total_wanted ts - total_wanted_done ts) (scast (download_payload_rate ts)))"

text \<open>
  The value text of a field. The fields listed are computed here; the others come from
  engine data outside the model. The queries that the formatting makes on the torrent's
  handle are not traced.
\<close>

definition property_value :: "env \<Rightarrow> torrent \<Rightarrow> string \<Rightarrow> fault + string" where
  "property_value e ts f =
     (if f = ''downloadDir'' then Inr (quoted (escape_json e (storage_path ts)))
      else if f = ''eta''
      then (case eta ts of Inl x \<Rightarrow> Inl x | Inr v \<Rightarrow> Inr (fmt_d_wide v))
      else if f = ''hashString'' then Inr (quoted (hash_string ts))
      else if f = ''downloadLimit'' then Inr (fmt_d (download_limit ts))
      else if f = ''downloadLimited'' then Inr (to_bool (int_less 0 (download_limit ts)))
      else if f = ''id'' then Inr (fmt_u (handle_id ts))
      else if f = ''isStalled'' then Inr (to_bool (download_payload_rate ts = 0))
      else if f = ''leftUntilDone''
      then Inr (fmt_i64 (total_wanted ts - total_wanted_done ts))
      else if f = ''name'' then Inr (quoted (escape_json e (name ts)))
      else if f = ''peer-limit'' then Inr (fmt_d (max_connections ts))
      else if f = ''uploadLimit'' then Inr (fmt_d (upload_limit ts))
      else if f = ''uploadLimited'' then Inr (to_bool (int_less 0 (upload_limit ts)))
      else if f = ''status'' then Inr (fmt_d (torrent_tr_status ts))
      else Inr (ext_property e f ts))"

text \<open>The fields in the order in which \<^verbatim>\<open>get_torrent\<close> tests and emits them.\<close>

definition field_catalog :: "string list" where
  "field_catalog =
     [''activityDate'', ''addedDate'', ''comment'', ''creator'', ''dateCreated'',
      ''doneDate'', ''downloadDir'', ''error'', ''errorString'', ''eta'', ''hashString'',
      ''downloadedEver'', ''downloadLimit'', ''downloadLimited'', ''haveValid'', ''id'',
      ''isFinished'', ''isPrivate'', ''isStalled'', ''leftUntilDone'', ''magnetLink'',
      ''metadataPercentComplete'', ''name'', ''peer-limit'', ''peersConnected'',
      ''percentDone'', ''pieceCount'', ''pieceSize'', ''queuePosition'', ''rateDownload'',
      ''rateUpload'', ''recheckProgress'', ''secondsDownloading'', ''secondsSeeding'',
      ''sizeWhenDone'', ''totalSize'', ''uploadedEver'', ''uploadLimit'', ''uploadLimited'',
      ''uploadedRatio'', ''status'', ''files'', ''fileStats'', ''wanted'', ''priorities'',
      ''webseeds'', ''pieces'', ''peers'', ''trackers'', ''trackerStats'']"

text \<open>
  \<^verbatim>\<open>TORRENT_PROPERTY\<close> and the blocks that follow its pattern: a requested field is
  appended as \<^verbatim>\<open>, "name": value\<close>, without the leading comma and space while
  \<^verbatim>\<open>count\<close> is 0.
\<close>

fun emit_properties ::
  "env \<Rightarrow> torrent \<Rightarrow> string list \<Rightarrow> string list \<Rightarrow> nat \<Rightarrow> fault + string" where
  "emit_properties e ts field_set [] count = Inr []"
| "emit_properties e ts field_set (f # fs) count =
     (if f \<in> set field_set
      then (case property_value e ts f of
              Inl x \<Rightarrow> Inl x
            | Inr v \<Rightarrow>
                (case emit_properties e ts field_set fs (Suc count) of
                   Inl x \<Rightarrow> Inl x
                 | Inr tail \<Rightarrow>
                     Inr (drop (if count = 0 then 2 else 0) ('', '' @ quoted f @ '': '' @ v)
                          @ tail)))
      else emit_properties e ts field_set fs count)"

fun emit_torrents ::
  "env \<Rightarrow> string list \<Rightarrow> uint32 list \<Rightarrow> torrent list \<Rightarrow> nat \<Rightarrow> fault + string" where
  "emit_torrents e field_set torrent_ids [] returned_torrents = Inr []"
| "emit_torrents e field_set torrent_ids (ts # t) returned_torrents =
     (if torrent_ids \<noteq> [] \<and> handle_id ts \<notin> set torrent_ids
      then emit_torrents e field_set torrent_ids t returned_torrents
      else (case emit_properties e ts field_set field_catalog 0 of
              Inl x \<Rightarrow> Inl x
            | Inr obj \<Rightarrow>
                (case emit_torrents e field_set torrent_ids t (Suc returned_torrents) of
                   Inl x \<Rightarrow> Inl x
                 | Inr tail \<Rightarrow>
                     Inr (drop (if returned_torrents = 0 then 2 else 0) '', {'' @ obj @ ''}''
                          @ tail))))"

definition get_torrent ::
  "env \<Rightarrow> adapter \<Rightarrow> string \<Rightarrow> jsmntok option \<Rightarrow> int64 \<Rightarrow> permissions_interface
     \<Rightarrow> handler_result" where
  \<open>get_torrent e st buf args tag p =
     (if \<not> allow_list p then Inr (return_failure buf ''permission denied'' tag, st)
      else case find_key args ''fields'' JSMN_ARRAY of
          None \<Rightarrow>
            Inr (return_failure buf (''missing '' @ [CHR 0x27] @ ''field'' @ [CHR 0x27]
                   @ '' argument'') tag, st)
        | Some field_ent \<Rightarrow>
            (let field_set = map tok_text (following_tokens field_ent);
                 torrent_ids = parse_ids args;
                 st' = on_session (log_call Get_torrent_status) st
             in case emit_torrents e field_set torrent_ids (torrents (m_ses st)) 0 of
                  Inl x \<Rightarrow> Inl x
                | Inr body \<Rightarrow>
                    Inr (buf @ ''{ "result": "success", "arguments": { "torrents": ['' @ body
                           @ ''] }, "tag": '' @ fmt_i64 tag @ '' }'', st')))\<close>

subsection \<open>\<^verbatim>\<open>torrent-set\<close>\<close>

text \<open>
  One of the five blocks that read a file-priority array: an empty array sets
  \<^verbatim>\<open>all_file_prio\<close>, every primitive element adds a pair of its index and the
  priority to \<^verbatim>\<open>file_priority\<close>.
\<close>

definition read_file_prio ::
  "jsmntok option \<Rightarrow> string \<Rightarrow> c_int \<Rightarrow> c_int \<times> (c_int \<times> c_int) list
     \<Rightarrow> c_int \<times> (c_int \<times> c_int) list" where
  "read_file_prio args key prio acc =
     (case find_key args key JSMN_ARRAY of
        None \<Rightarrow> acc
      | Some ent \<Rightarrow>
          ((if tok_size ent = 0 then prio else fst acc),
           snd acc @ map (\<lambda>item. (atoi (tok_text item), prio))
                       (filter (\<lambda>item. tok_type item = JSMN_PRIMITIVE) (array_items ent))))"

definition parse_file_priorities :: "jsmntok option \<Rightarrow> c_int \<times> (c_int \<times> c_int) list" where
  "parse_file_priorities args =
     read_file_prio args ''priority-normal'' 2
       (read_file_prio args ''priority-low'' 1
         (read_file_prio args ''priority-high'' 7
           (read_file_prio args ''files-wanted'' 2
             (read_file_prio args ''files-unwanted'' 0 (- 1, [])))))"

text \<open>The loop over \<^verbatim>\<open>file_priority\<close>: an index outside the vector is skipped.\<close>

fun override_priorities :: "(c_int \<times> c_int) list \<Rightarrow> c_int list \<Rightarrow> c_int list" where
  "override_priorities [] prio = prio"
| "override_priorities (iv # rest) prio =
     override_priorities rest
       (if sint (fst iv) < 0 \<or> length prio \<le> nat (sint (fst iv)) then prio
        else prio[nat (sint (fst iv)) := snd iv])"

definition parse_tracker_add :: "jsmntok option \<Rightarrow> announce_entry list" where
  "parse_tracker_add args =
     (case find_key args ''trackerAdd'' JSMN_ARRAY of
        None \<Rightarrow> []
      | Some tracker_add \<Rightarrow>
          map (\<lambda>item. new_announce_entry (tok_text item))
            (filter (\<lambda>item. tok_type item = JSMN_STRING) (array_items tracker_add)))"

text \<open>What \<^verbatim>\<open>set_torrent\<close> reads from the arguments before its loop over the handles.\<close>

record torrent_changes =
  set_dl_limit :: bool
  dl_limit :: c_int
  set_ul_limit :: bool
  ul_limit :: c_int
  do_move_storage :: bool
  location :: string
  set_max_conns :: bool
  max_conns :: c_int
  add_trackers :: "announce_entry list"
  all_file_prio :: c_int
  file_priority :: "(c_int \<times> c_int) list"

definition parse_torrent_changes :: "jsmntok option \<Rightarrow> torrent_changes" where
  "parse_torrent_changes args =
     \<lparr>set_dl_limit = snd (find_int args ''downloadLimit''),
      dl_limit = (if find_bool args ''downloadLimited''
                  then ucast (fst (find_int args ''downloadLimit'')) else 0),
      set_ul_limit = snd (find_int args ''uploadLimit''),
      ul_limit = (if find_bool args ''uploadLimited''
                  then ucast (fst (find_int args ''uploadLimit'')) else 0),
      do_move_storage = snd (find_string args ''location''),
      location = fst (find_string args ''location''),
      set_max_conns = snd (find_int args ''peer-limit''),
      max_conns = ucast (fst (find_int args ''peer-limit'')),
      add_trackers = parse_tracker_add args,
      all_file_prio = fst (parse_file_priorities args),
      file_priority = snd (parse_file_priorities args)\<rparr>"

text \<open>The body of the loop over the handles.\<close>

definition change_torrent :: "torrent_changes \<Rightarrow> uint32 \<Rightarrow> session \<Rightarrow> session" where
  "change_torrent c h s0 =
     (let s1 = (if set_dl_limit c then set_download_limit h (dl_limit c * 1000) s0 else s0);
          s2 = (if set_ul_limit c then set_upload_limit h (ul_limit c * 1000) s1 else s1);
          s3 = (if do_move_storage c then move_storage h (location c) s2 else s2);
          s4 = (if set_max_conns c then set_max_connections h (max_conns c) s3 else s3);
          s5 = (if add_trackers c \<noteq> []
                then replace_trackers h (handle_trackers h s4 @ add_trackers c)
                       (log_call (Trackers h) s4)
                else s4)
      in if file_priority c \<noteq> []
         then (let prio = handle_file_priorities h s5;
                   prio = (if all_file_prio c \<noteq> - 1 then map (\<lambda>_. all_file_prio c) prio
                           else prio)
               in prioritize_files h (override_priorities (file_priority c) prio)
                    (log_call (File_priorities h) s5))
         else s5)"

text \<open>\<^verbatim>\<open>set_torrent\<close> appends nothing to the buffer.\<close>

definition set_torrent ::
  "env \<Rightarrow> adapter \<Rightarrow> string \<Rightarrow> jsmntok option \<Rightarrow> int64 \<Rightarrow> permissions_interface
     \<Rightarrow> handler_result" where
  "set_torrent e st buf args tag p =
     (if \<not> allow_set_settings p None
      then Inr (return_failure buf ''permission denied'' tag, st)
      else
        let hs = get_torrents st args;
            c = parse_torrent_changes args
        in Inr (buf, on_session (\<lambda>s. foldl (\<lambda>s h. change_torrent c h s) s (fst hs)) (snd hs)))"

subsection \<open>Starting, stopping, verifying, reannouncing, removing\<close>

text \<open>
  The six handlers share one shape: the permission check, \<^verbatim>\<open>get_torrents\<close>, a loop of
  engine calls over the handles, and the empty success envelope.
\<close>

definition for_handles ::
  "(uint32 \<Rightarrow> session \<Rightarrow> session) \<Rightarrow> adapter \<Rightarrow> string \<Rightarrow> jsmntok option \<Rightarrow> int64
     \<Rightarrow> handler_result" where
  "for_handles body st buf args tag =
     (let hs = get_torrents st args
      in Inr (buf @ success_empty tag,
              on_session (\<lambda>s. foldl (\<lambda>s h. body h s) s (fst hs)) (snd hs)))"

definition start_torrent ::
  "env \<Rightarrow> adapter \<Rightarrow> string \<Rightarrow> jsmntok option \<Rightarrow> int64 \<Rightarrow> permissions_interface
     \<Rightarrow> handler_result" where
  "start_torrent e st buf args tag p =
     (if \<not> allow_start p then Inr (return_failure buf ''permission denied'' tag, st)
      else for_handles (\<lambda>h s. resume h (set_auto_managed h True s)) st buf args tag)"

definition start_torrent_now ::
  "env \<Rightarrow> adapter \<Rightarrow> string \<Rightarrow> jsmntok option \<Rightarrow> int64 \<Rightarrow> permissions_interface
     \<Rightarrow> handler_result" where
  "start_torrent_now e st buf args tag p =
     (if \<not> allow_start p then Inr (return_failure buf ''permission denied'' tag, st)
      else for_handles (\<lambda>h s. resume h (set_auto_managed h False s)) st buf args tag)"

definition stop_torrent ::
  "env \<Rightarrow> adapter \<Rightarrow> string \<Rightarrow> jsmntok option \<Rightarrow> int64 \<Rightarrow> permissions_interface
     \<Rightarrow> handler_result" where
  "stop_torrent e st buf args tag p =
     (if \<not> allow_stop p then Inr (return_failure buf ''permission denied'' tag, st)
      else for_handles (\<lambda>h s. pause h (set_auto_managed h False s)) st buf args tag)"

definition verify_torrent ::
  "env \<Rightarrow> adapter \<Rightarrow> string \<Rightarrow> jsmntok option \<Rightarrow> int64 \<Rightarrow> permissions_interface
     \<Rightarrow> handler_result" where
  "verify_torrent e st buf args tag p =
     (if \<not> allow_recheck p then Inr (return_failure buf ''permission denied'' tag, st)
      else for_handles force_recheck st buf args tag)"

definition reannounce_torrent ::
  "env \<Rightarrow> adapter \<Rightarrow> string \<Rightarrow> jsmntok option \<Rightarrow> int64 \<Rightarrow> permissions_interface
     \<Rightarrow> handler_result" where
  "reannounce_torrent e st buf args tag p =
     (if \<not> allow_start p then Inr (return_failure buf ''permission denied'' tag, st)
      else for_handles force_reannounce st buf args tag)"

definition remove_torrent ::
  "env \<Rightarrow> adapter \<Rightarrow> string \<Rightarrow> jsmntok option \<Rightarrow> int64 \<Rightarrow> permissions_interface
     \<Rightarrow> handler_result" where
  "remove_torrent e st buf args tag p =
     (if \<not> allow_remove p then Inr (return_failure buf ''permission denied'' tag, st)
      else for_handles
             (\<lambda>h s. session_remove_torrent h (find_bool args ''delete-local-data'') s)
             st buf args tag)"

subsection \<open>\<^verbatim>\<open>session-stats\<close>\<close>

definition stats_block :: "env \<Rightarrow> adapter \<Rightarrow> string" where
  \<open>stats_block e st =
     ''"uploadedBytes": '' @ fmt_i64 (total_payload_upload (status (m_ses st)))
     @ '',"downloadedBytes": '' @ fmt_i64 (total_payload_download (status (m_ses st)))
     @ '',"filesAdded": '' @ fmt_d (num_torrents (status (m_ses st)))
     @ '',"sessionCount": '' @ fmt_d 1
     @ '',"secondsActive": '' @ fmt_d_wide (time_now e - m_start_time st)\<close>

definition session_stats ::
  "env \<Rightarrow> adapter \<Rightarrow> string \<Rightarrow> jsmntok option \<Rightarrow> int64 \<Rightarrow> permissions_interface
     \<Rightarrow> handler_result" where
  \<open>session_stats e st buf args tag p =
     (if \<not> allow_session_status p
      then Inr (return_failure buf ''permission denied'' tag, st)
      else
        let sst = status (m_ses st)
        in Inr (buf @ ''{ "result": "success", "tag": '' @ fmt_i64 tag
                  @ '', "arguments": { "activeTorrentCount": ''
                  @ fmt_d (num_torrents sst - num_paused_torrents sst)
                  @ '',"downloadSpeed": '' @ fmt_d (payload_download_rate sst)
                  @ '',"pausedTorrentCount": '' @ fmt_d (num_paused_torrents sst)
                  @ '',"torrentCount": '' @ fmt_d (num_torrents sst)
                  @ '',"uploadSpeed": '' @ fmt_d (payload_upload_rate sst)
                  @ '',"cumulative-stats": {'' @ stats_block e st
                  @ ''},"current-stats": {'' @ stats_block e st @ ''}}}'',
                on_session (log_call Session_status) st))\<close>

subsection \<open>\<^verbatim>\<open>session-get\<close>\<close>

text \<open>The arguments that \<^verbatim>\<open>get_session\<close> passes to its format string, in order.\<close>

record session_document =
  cache_size_mb :: c_int
  download_dir :: string
  download_dir_free_space :: int64
  download_queue_size :: c_int
  seed_queue_size :: c_int
  speed_limit_down :: c_int
  speed_limit_up :: c_int
  speed_limit_down_enabled :: bool
  speed_limit_up_enabled :: bool
  start_added_torrents :: bool
  utp_enabled :: bool
  version :: string
  peer_port :: c_int
  peer_limit_global :: c_int
  encryption :: string

definition session_values :: "env \<Rightarrow> adapter \<Rightarrow> session_document" where
  "session_values e st =
     (let sett = int_setting (m_ses st);
          pes = pe (m_ses st)
      in \<lparr>cache_size_mb = int_mul_div e (sett cache_size) 16 1024,
          download_dir = save_path (m_params_model st),
          download_dir_free_space = free_disk_space e (save_path (m_params_model st)),
          download_queue_size = sett active_downloads,
          seed_queue_size = sett active_seeds,
          speed_limit_down = int_div (sett download_rate_limit) 1000,
          speed_limit_up = int_div (sett upload_rate_limit) 1000,
          speed_limit_down_enabled = int_less 0 (sett download_rate_limit),
          speed_limit_up_enabled = int_less 0 (sett upload_rate_limit),
          start_added_torrents =
            (flags (m_params_model st) AND flag_auto_managed \<noteq> 0
             \<or> flags (m_params_model st) AND flag_paused = 0),
          utp_enabled =
            (bool_setting (m_ses st) enable_incoming_utp
             \<or> bool_setting (m_ses st) enable_outgoing_utp),
          version = str_setting (m_ses st) user_agent,
          peer_port = ucast (listen_port (m_ses st)),
          peer_limit_global = sett connections_limit,
          encryption =
            (if in_enc_policy pes = forced then ''required''
             else if prefer_rc4 pes then ''preferred'' else ''tolerated'')\<rparr>)"

definition units_block :: string where
  \<open>units_block =
     ''"units": { "speed-units": ["kB/s", "MB/s", "GB/s", "TB/s"],''
     @ ''"speed-bytes": [1000, 1000000, 1000000000, 1000000000000],''
     @ ''"size-units": ["kB", "MB", "GB", "TB"],''
     @ ''"size-bytes": [1000, 1000000, 1000000000, 1000000000000],''
     @ ''"memory-units": ["kB", "MB", "GB", "TB"],''
     @ ''"memory-bytes": [1000, 1000000, 1000000000, 1000000000000]},''\<close>

definition format_session :: "int64 \<Rightarrow> session_document \<Rightarrow> string" where
  \<open>format_session tag d =
     ''{ "result": "success", "tag": '' @ fmt_i64 tag
     @ '', "arguments": { "alt-speed-down": 0,"alt-speed-enabled": false,''
     @ ''"alt-speed-time-begin": 0,"alt-speed-time-enabled": false,''
     @ ''"alt-speed-time-end": 0,"alt-speed-time-day": 0,"alt-speed-up": 0,''
     @ ''"blocklist-url": "","blocklist-enabled": false,"blocklist-size": 0,''
     @ ''"cache-size-mb": '' @ fmt_d (cache_size_mb d)
     @ '',"config-dir": "","download-dir": '' @ quoted (download_dir d)
     @ '',"download-dir-free-space": '' @ fmt_i64 (download_dir_free_space d)
     @ '',"download-queue-size": '' @ fmt_d (download_queue_size d)
     @ '',"download-queue-enabled": true,"seed-queue-size": '' @ fmt_d (seed_queue_size d)
     @ '',"seed-queue-enabled": true,"speed-limit-down": '' @ fmt_d (speed_limit_down d)
     @ '',"speed-limit-up": '' @ fmt_d (speed_limit_up d)
     @ '',"speed-limit-down-enabled": '' @ to_bool (speed_limit_down_enabled d)
     @ '',"speed-limit-up-enabled": '' @ to_bool (speed_limit_up_enabled d)
     @ '',"start-added-torrents": '' @ to_bool (start_added_torrents d) @ '',''
     @ units_block
     @ ''"utp-enabled": '' @ to_bool (utp_enabled d)
     @ '',"version": '' @ quoted (version d)
     @ '',"peer-port": '' @ fmt_d (peer_port d)
     @ '',"peer-limit-global": '' @ fmt_d (peer_limit_global d)
     @ '',"encryption": '' @ quoted (encryption d) @ ''}}''\<close>

text \<open>
  \<^verbatim>\<open>get_session\<close> asks the engine for its status, settings, encryption settings and
  listen port.
\<close>

definition get_session ::
  "env \<Rightarrow> adapter \<Rightarrow> string \<Rightarrow> jsmntok option \<Rightarrow> int64 \<Rightarrow> permissions_interface
     \<Rightarrow> handler_result" where
  "get_session e st buf args tag p =
     (if \<not> allow_get_settings p None
      then Inr (return_failure buf ''permission denied'' tag, st)
      else Inr (buf @ format_session tag (session_values e st),
                on_session
                  (\<lambda>s. log_call Listen_port
                         (log_call Get_pe_settings (log_call Get_settings
                           (log_call Session_status s)))) st))"

subsection \<open>\<^verbatim>\<open>session-set\<close>\<close>

definition store_str :: "string \<Rightarrow> string \<Rightarrow> save_settings \<Rightarrow> save_settings" where
  "store_str k v ss = ss\<lparr>str_values := (k, v) # str_values ss\<rparr>"

definition store_int :: "string \<Rightarrow> c_int \<Rightarrow> save_settings \<Rightarrow> save_settings" where
  "store_int k v ss = ss\<lparr>int_values := (k, v) # int_values ss\<rparr>"

definition save :: "save_settings \<Rightarrow> save_settings" where
  "save ss = ss\<lparr>saves := Suc (saves ss)\<rparr>"

text \<open>
  The \<^verbatim>\<open>encryption\<close> branch works on \<^verbatim>\<open>pes\<close>, a copy of the session's encryption
  settings obtained with \<^verbatim>\<open>get_pe_settings\<close>. The branch ends after the assignments to
  the copy: no call hands the copy back to the session.
\<close>

definition chosen_pe_settings :: "string \<Rightarrow> pe_settings \<Rightarrow> pe_settings" where
  "chosen_pe_settings val pes =
     (if val = ''required''
      then pes\<lparr>out_enc_policy := forced, in_enc_policy := forced,
               allowed_enc_level := rc4, prefer_rc4 := True\<rparr>
      else if val = ''preferred''
      then pes\<lparr>out_enc_policy := enabled, in_enc_policy := enabled,
               allowed_enc_level := both, prefer_rc4 := True\<rparr>
      else pes\<lparr>out_enc_policy := enabled, in_enc_policy := enabled,
               allowed_enc_level := both, prefer_rc4 := False\<rparr>)"

text \<open>
  One round of the loop over the keys of \<^verbatim>\<open>arguments\<close>: \<open>key\<close> and \<open>val\<close> are the
  texts of the key and value tokens, the state is the pending \<^verbatim>\<open>settings_pack\<close> and
  the adapter.
\<close>

definition set_session_key ::
  "env \<Rightarrow> permissions_interface \<Rightarrow> string \<Rightarrow> string \<Rightarrow> settings_pack \<times> adapter
     \<Rightarrow> settings_pack \<times> adapter" where
  "set_session_key e p key val pa =
     (let pack = fst pa; st = snd pa
      in
      if key = ''alt-speed-down'' then pa
      else if key = ''cache-size-mb''
      then (if \<not> allow_set_settings p (Some cache_size) then pa
            else (set_int cache_size (int_mul_div e (atoi val) 1024 16) pack, st))
      else if key = ''download-dir''
      then (if \<not> allow_set_settings p None then pa
            else (pack,
                  st\<lparr>m_params_model := (m_params_model st)\<lparr>save_path := val\<rparr>,
                     m_settings := map_option (store_str ''save_path'' val) (m_settings st)\<rparr>))
      else if key = ''download-queue-size''
      then (if \<not> allow_set_settings p (Some active_downloads) then pa
            else (set_int active_downloads (atoi val) pack, st))
      else if key = ''seed-queue-size''
      then (if \<not> allow_set_settings p (Some active_seeds) then pa
            else (set_int active_seeds (atoi val) pack, st))
      else if key = ''speed-limit-down''
      then (if \<not> allow_set_settings p (Some download_rate_limit) then pa
            else (set_int download_rate_limit (atoi val * 1000) pack, st))
      else if key = ''speed-limit-up''
      then (if \<not> allow_set_settings p (Some upload_rate_limit) then pa
            else (set_int upload_rate_limit (atoi val * 1000) pack, st))
      else if key = ''speed-limit-down-enabled''
      then (if \<not> allow_set_settings p (Some download_rate_limit) then pa
            else if val = ''true'' then (set_int download_rate_limit 100000 pack, st)
            else (set_int download_rate_limit 0 pack, st))
      else if key = ''speed-limit-up-enabled''
      then (if \<not> allow_set_settings p (Some upload_rate_limit) then pa
            else if val = ''true'' then (set_int upload_rate_limit 100000 pack, st)
            else (set_int upload_rate_limit 0 pack, st))
      else if key = ''start-added-torrents''
      then (if \<not> allow_set_settings p None then pa
            else
              let start = (val = ''true'');
                  f = flags (m_params_model st) OR (if start then 0 else flag_paused);
                  f = f AND NOT (if start then 0 else flag_auto_managed)
              in (pack, st\<lparr>m_params_model := (m_params_model st)\<lparr>flags := f\<rparr>\<rparr>))
      else if key = ''peer-port''
      then (if \<not> allow_set_settings p None then pa
            else
              let port = atoi val;
                  st = on_session (listen_on e port (port + 1)) st
              in (pack, st\<lparr>m_settings := map_option (store_int ''listen_port'' port) (m_settings st)\<rparr>))
      else if key = ''utp-enabled''
      then (if \<not> allow_set_settings p (Some enable_outgoing_utp)
               \<or> \<not> allow_set_settings p (Some enable_outgoing_utp) then pa
            else
              let utp = (val = ''true'')
              in (set_bool enable_incoming_utp utp (set_bool enable_outgoing_utp utp pack), st))
      else if key = ''peer-limit-global''
      then (if \<not> allow_set_settings p (Some connections_limit) then pa
            else (set_int connections_limit (atoi val) pack, st))
      else if key = ''encryption''
      then (if \<not> allow_set_settings p None then pa
            else
              let pes = chosen_pe_settings val (pe (m_ses st))
              in (pack, on_session (log_call Get_pe_settings) st))
      else pa)"

fun object_members :: "jsmntok \<Rightarrow> (string \<times> jsmntok) list" where
  "object_members (JObject kvs) = kvs"
| "object_members t = []"

text \<open>
  \<^verbatim>\<open>set_session\<close> reads \<^verbatim>\<open>args->size\<close> first, whether or not the request had
  \<^verbatim>\<open>arguments\<close>. After the loop the pack is applied and the store, if any, saved.
  Nothing is appended to the buffer.
\<close>

definition set_session ::
  "env \<Rightarrow> adapter \<Rightarrow> string \<Rightarrow> jsmntok option \<Rightarrow> int64 \<Rightarrow> permissions_interface
     \<Rightarrow> handler_result" where
  "set_session e st buf args tag p =
     (case args of
        None \<Rightarrow> Inl Null_dereference
      | Some a \<Rightarrow>
          (let pa = foldl (\<lambda>pa kv. set_session_key e p (fst kv) (tok_text (snd kv)) pa)
                      (empty_pack, st) (object_members a);
               st1 = on_session (apply_settings (fst pa)) (snd pa)
           in Inr (buf, st1\<lparr>m_settings := map_option save (m_settings st1)\<rparr>)))"

subsection \<open>The dispatcher\<close>

definition handlers ::
  "(string \<times> (env \<Rightarrow> adapter \<Rightarrow> string \<Rightarrow> jsmntok option \<Rightarrow> int64 \<Rightarrow> permissions_interface
     \<Rightarrow> handler_result)) list" where
  "handlers =
     [(''torrent-add'', add_torrent),
      (''torrent-get'', get_torrent),
      (''torrent-set'', set_torrent),
      (''torrent-start'', start_torrent),
      (''torrent-start-now'', start_torrent_now),
      (''torrent-stop'', stop_torrent),
      (''torrent-verify'', verify_torrent),
      (''torrent-reannounce'', reannounce_torrent),
      (''torrent-remove'', remove_torrent),
      (''session-stats'', session_stats),
      (''session-get'', get_session),
      (''session-set'', set_session)]"

text \<open>
  \<^verbatim>\<open>handle_json_rpc\<close>: the first entry of the table whose name is the method handles
  the request. A method that matches no entry is printed to standard output and the
  buffer is left as it was.
\<close>

definition handle_json_rpc ::
  "env \<Rightarrow> adapter \<Rightarrow> string \<Rightarrow> jsmntok \<Rightarrow> permissions_interface \<Rightarrow> handler_result" where
  "handle_json_rpc e st buf tokens p =
     (case find_key (Some tokens) ''method'' JSMN_STRING of
        None \<Rightarrow> Inr (return_failure buf ''missing method in request'' (- 1), st)
      | Some method \<Rightarrow>
          (case map_of handlers (tok_text method) of
             None \<Rightarrow> Inr (buf, st)
           | Some handler \<Rightarrow>
               handler e st buf (find_key (Some tokens) ''arguments'' JSMN_OBJECT)
                 (fst (find_int (Some tokens) ''tag'')) p))"

subsection \<open>The method guards\<close>

text \<open>
  The methods that the specification guards with a predicate of the permission object,
  each with the predicate its handler tests first. \<^verbatim>\<open>session-set\<close> has no guard of
  its own: it tests a predicate for each key.
\<close>

definition method_guard :: "(string \<times> (permissions_interface \<Rightarrow> bool)) list" where
  "method_guard =
     [(''torrent-add'', allow_add),
      (''torrent-get'', allow_list),
      (''torrent-set'', \<lambda>p. allow_set_settings p None),
      (''torrent-start'', allow_start),
      (''torrent-start-now'', allow_start),
      (''torrent-stop'', allow_stop),
      (''torrent-verify'', allow_recheck),
      (''torrent-reannounce'', allow_start),
      (''torrent-remove'', allow_remove),
      (''session-stats'', allow_session_status),
      (''session-get'', \<lambda>p. allow_get_settings p None)]"

text \<open>A request as the clients send it: method, arguments and tag.\<close>

definition rpc_request :: "string \<Rightarrow> jsmntok \<Rightarrow> string \<Rightarrow> jsmntok" where
  "rpc_request m args tag =
     JObject [(''method'', JString m), (''arguments'', args), (''tag'', JPrimitive tag)]"

text \<open>
  Two requests of one client in a row, as the front door serves them: each starts with an
  empty response buffer, the second runs on the adapter the first one left.
\<close>

definition two_requests ::
  "env \<Rightarrow> adapter \<Rightarrow> jsmntok \<Rightarrow> jsmntok \<Rightarrow> permissions_interface \<Rightarrow> handler_result" where
  "two_requests e st first second p =
     (case handle_json_rpc e st [] first p of
        Inl x \<Rightarrow> Inl x
      | Inr bs \<Rightarrow> handle_json_rpc e (snd bs) [] second p)"

text \<open>What a result shows: the response text, and the limits of the engine's torrents.\<close>

definition response_text :: "handler_result \<Rightarrow> string option" where
  "response_text r = (case r of Inl x \<Rightarrow> None | Inr bs \<Rightarrow> Some (fst bs))"

definition limits_of :: "torrent \<Rightarrow> uint32 \<times> int \<times> int" where
  "limits_of t = (handle_id t, sint (download_limit t), sint (upload_limit t))"

definition engine_limits :: "handler_result \<Rightarrow> (uint32 \<times> int \<times> int) list option" where
  "engine_limits r =
     (case r of Inl x \<Rightarrow> None | Inr bs \<Rightarrow> Some (map limits_of (torrents (m_ses (snd bs)))))"

subsection \<open>An example adapter\<close>

definition permit_all :: permissions_interface where
  "permit_all =
     \<lparr>allow_start = True, allow_stop = True, allow_recheck = True, allow_list = True,
      allow_add = True, allow_remove = True, allow_session_status = True,
      allow_get_settings = (\<lambda>k. True), allow_set_settings = (\<lambda>k. True)\<rparr>"

definition permit_none :: permissions_interface where
  "permit_none =
     \<lparr>allow_start = False, allow_stop = False, allow_recheck = False, allow_list = False,
      allow_add = False, allow_remove = False, allow_session_status = False,
      allow_get_settings = (\<lambda>k. False), allow_set_settings = (\<lambda>k. False)\<rparr>"

text \<open>A client that may change every setting and read none.\<close>

definition permit_writes :: permissions_interface where
  "permit_writes =
     \<lparr>allow_start = True, allow_stop = True, allow_recheck = True, allow_list = True,
      allow_add = True, allow_remove = True, allow_session_status = True,
      allow_get_settings = (\<lambda>k. False), allow_set_settings = (\<lambda>k. True)\<rparr>"

definition example_torrent :: torrent where
  "example_torrent =
     \<lparr>paused = False, auto_managed = True, state = downloading,
      download_payload_rate = 1000, total_wanted = 5000, total_wanted_done = 2000,
      handle_id = 1, name = ''a'', hash_string = ''00'', storage_path = ''.'',
      download_limit = 0, upload_limit = 0, max_connections = 50, trackers = [],
      file_priorities = [0, 0, 0]\<rparr>"

text \<open>A torrent with 5000000000 bytes left that downloads one byte a second.\<close>

definition slow_torrent :: torrent where
  "slow_torrent =
     example_torrent\<lparr>download_payload_rate := 1, total_wanted := 5000000000,
                     total_wanted_done := 0\<rparr>"

definition example_session :: session where
  "example_session =
     \<lparr>torrents = [example_torrent],
      int_setting = (\<lambda>k. 0), bool_setting = (\<lambda>k. False), str_setting = (\<lambda>k. []),
      pe = \<lparr>out_enc_policy = enabled, in_enc_policy = enabled, allowed_enc_level = both,
             prefer_rc4 = False\<rparr>,
      listen_port = 6881,
      status = \<lparr>num_torrents = 1, num_paused_torrents = 0, payload_download_rate = 0,
                 payload_upload_rate = 0, total_payload_upload = 0,
                 total_payload_download = 0\<rparr>,
      calls = []\<rparr>"

text \<open>
  A template that adds torrents paused, as \<^verbatim>\<open>start-added-torrents\<close> false leaves it.
\<close>

definition example_adapter :: adapter where
  "example_adapter =
     \<lparr>m_ses = example_session, m_settings = None,
      m_params_model = \<lparr>flags = flag_paused, save_path = ''.'', url = [], ti = None\<rparr>,
      m_start_time = 0\<rparr>"

definition example_env :: env where
  "example_env =
     \<lparr>escape_json = (\<lambda>s. s), base64decode = (\<lambda>s. s),
      load_torrent_file = (\<lambda>f. Inl ''No such file or directory''),
      parse_torrent_buffer = (\<lambda>b. Inl ''unexpected end of file in bencoded string''),
      new_torrent = (\<lambda>params ts. Some (example_torrent\<lparr>handle_id := 2\<rparr>)),
      listen_result = (\<lambda>lo hi. ucast lo),
      free_disk_space = (\<lambda>path. 0), time_now = 0,
      ext_property = (\<lambda>f t. ''0''),
      overflowed_mul_div = (\<lambda>a b d. word_of_int (c_quot (sint a * sint b) (sint d)))\<rparr>"

section \<open>Theorems\<close>

subsection \<open>Evaluation and arithmetic lemmas\<close>

lemmas tr_status_defs =
  TR_STATUS_STOPPED_def TR_STATUS_CHECK_WAIT_def TR_STATUS_CHECK_def
  TR_STATUS_DOWNLOAD_WAIT_def TR_STATUS_DOWNLOAD_def TR_STATUS_SEED_WAIT_def
  TR_STATUS_SEED_def

lemma dec_nat_small: "n < 10 \<Longrightarrow> dec_nat n = [''0123456789'' ! n]"
  by (subst dec_nat.simps) simp

lemma dec_nat_large:
  "\<not> n < 10 \<Longrightarrow> dec_nat n = dec_nat (n div 10) @ [''0123456789'' ! (n mod 10)]"
  by (subst dec_nat.simps) simp

lemma fmt_i64_minus1: "fmt_i64 (- 1) = ''-1''"
  by (simp add: fmt_i64_def dec_int_def dec_nat_small)

text \<open>Converting a 64-bit value to \<^verbatim>\<open>int\<close> keeps its low 32 bits.\<close>

lemma ucast_as_sint:
  fixes v :: int64
  shows "(ucast v :: c_int) = word_of_int (sint v)"
proof -
  have "is_down (ucast :: int64 \<Rightarrow> c_int)" by (simp add: is_down)
  then have "(ucast :: int64 \<Rightarrow> c_int) = scast" by (rule down_cast_same)
  then have "(ucast v :: c_int) = scast v" by simp
  also have "\<dots> = word_of_int (sint v)" by (rule scast_eq)
  finally show ?thesis .
qed

lemma sint_small:
  assumes "- 2147483648 \<le> n" "n < 2147483648"
  shows "sint (word_of_int n :: c_int) = n"
  using assms by (simp add: int_word_sint)

lemma times_1000_in_range:
  fixes v :: int64
  assumes "- 2147483 \<le> sint v" "sint v \<le> 2147483"
  shows "sint ((ucast v :: c_int) * 1000) = sint v * 1000"
proof -
  have "(ucast v :: c_int) * 1000 = word_of_int (sint v) * word_of_int 1000"
    by (simp only: ucast_as_sint) simp
  also have "\<dots> = word_of_int (sint v * 1000)"
    by (simp only: wi_hom_mult)
  finally have "sint ((ucast v :: c_int) * 1000) = sint (word_of_int (sint v * 1000) :: c_int)"
    by (rule arg_cong)
  also have "\<dots> = sint v * 1000" using assms by (intro sint_small) simp_all
  finally show ?thesis .
qed

lemma scast_rate_pos:
  fixes r :: c_int
  assumes "0 < sint r"
  shows "(scast r :: int64) \<noteq> 0 \<and> sint (scast r :: int64) = sint r"
proof -
  have up: "is_up (scast :: c_int \<Rightarrow> int64)" by (simp add: is_up)
  have s: "sint (scast r :: int64) = sint r" using up by (rule sint_up_scast)
  have "(scast r :: int64) \<noteq> 0"
  proof
    assume "(scast r :: int64) = 0"
    then have "sint (scast r :: int64) = 0" by simp
    then show False using s assms by simp
  qed
  then show ?thesis using s by simp
qed

subsection \<open>The handlers that append nothing\<close>

lemma set_torrent_buffer:
  "allow_set_settings p None \<Longrightarrow> \<exists>st'. set_torrent e st buf args tag p = Inr (buf, st')"
  by (simp add: set_torrent_def Let_def)

lemma set_session_buffer:
  "\<exists>st'. set_session e st buf (Some a) tag p = Inr (buf, st')"
  by (simp add: set_session_def Let_def)

text \<open>
  C1. The dispatcher does not produce an envelope for every request that reaches a
  handler: with every permission granted, a \<^verbatim>\<open>torrent-set\<close> request (the one of
  scenario S4) and a \<^verbatim>\<open>session-set\<close> request both leave the response buffer empty,
  where the claim requires a non-empty success or failure envelope. The other handlers
  that have no result document append the empty success envelope.
\<close>

theorem set_requests_leave_buffer_empty:
  "(\<exists>st'. handle_json_rpc example_env example_adapter []
       (rpc_request ''torrent-set''
          (JObject [(''ids'', JArray [JPrimitive ''1'']), (''uploadLimit'', JPrimitive ''250''),
                    (''uploadLimited'', JPrimitive ''true'')]) ''1'') permit_all = Inr ([], st'))
   \<and> (\<exists>st'. handle_json_rpc example_env example_adapter []
       (rpc_request ''session-set''
          (JObject [(''speed-limit-up-enabled'', JPrimitive ''false'')]) ''2'') permit_all
        = Inr ([], st'))"
proof
  have ok: "allow_set_settings permit_all None" by (simp add: permit_all_def)
  show "\<exists>st'. handle_json_rpc example_env example_adapter []
       (rpc_request ''torrent-set''
          (JObject [(''ids'', JArray [JPrimitive ''1'']), (''uploadLimit'', JPrimitive ''250''),
                    (''uploadLimited'', JPrimitive ''true'')]) ''1'') permit_all = Inr ([], st')"
    using set_torrent_buffer [OF ok, of example_env example_adapter "[]"]
    by (simp add: handle_json_rpc_def rpc_request_def handlers_def)
  show "\<exists>st'. handle_json_rpc example_env example_adapter []
       (rpc_request ''session-set''
          (JObject [(''speed-limit-up-enabled'', JPrimitive ''false'')]) ''2'') permit_all
        = Inr ([], st')"
    using set_session_buffer [of example_env example_adapter "[]"]
    by (simp add: handle_json_rpc_def rpc_request_def handlers_def)
qed

subsection \<open>\<^verbatim>\<open>session-set\<close> and the encryption settings\<close>

lemma if_pe:
  "pe (m_ses (snd (if b then x else y)))
     = (if b then pe (m_ses (snd x)) else pe (m_ses (snd y)))"
  by simp

lemma set_session_key_pe:
  "pe (m_ses (snd (set_session_key e p key val pa))) = pe (m_ses (snd pa))"
  unfolding set_session_key_def Let_def
  by (simp add: if_pe on_session_def listen_on_def log_call_def cong: if_cong
      split del: if_split)

lemma set_session_loop_pe:
  "pe (m_ses (snd (foldl (\<lambda>pa kv. set_session_key e p (fst kv) (tok_text (snd kv)) pa) pa kvs)))
     = pe (m_ses (snd pa))"
  by (induction kvs arbitrary: pa) (simp_all add: set_session_key_pe)

text \<open>Whatever the arguments, \<^verbatim>\<open>set_session\<close> leaves the encryption settings alone.\<close>

lemma set_session_pe:
  "set_session e st buf args tag p = Inr (buf', st') \<Longrightarrow> pe (m_ses st') = pe (m_ses st)"
  by (cases args)
     (auto simp add: set_session_def Let_def on_session_def apply_settings_def log_call_def
        set_session_loop_pe)

lemma parse_decimal_2: "parse_decimal ''2'' = 2"
  by (simp add: parse_decimal_def)

lemma atoi_51413: "atoi ''51413'' = 51413"
  by (simp add: parse_decimal_def atoi_def strtol_def)

text \<open>
  C2. Scenario S5 fails on the encryption: in a session whose incoming policy is not
  forced and that does not prefer RC4, \<^verbatim>\<open>session-set\<close> with peer-port 51413 and
  encryption \<^verbatim>\<open>required\<close>, every permission granted, is followed by a
  \<^verbatim>\<open>session-get\<close> whose document has peer-port 51413 and encryption
  \<^verbatim>\<open>tolerated\<close>. The write changes a local copy of the encryption settings only.
\<close>

theorem session_set_encryption_not_applied:
  "\<exists>st1 st2.
     handle_json_rpc example_env example_adapter []
       (rpc_request ''session-set''
          (JObject [(''peer-port'', JPrimitive ''51413''), (''encryption'', JString ''required'')])
          ''1'') permit_all = Inr ([], st1)
     \<and> handle_json_rpc example_env st1 [] (rpc_request ''session-get'' (JObject []) ''2'')
           permit_all = Inr (format_session 2 (session_values example_env st1), st2)
     \<and> peer_port (session_values example_env st1) = 51413
     \<and> encryption (session_values example_env st1) = ''tolerated''"
proof -
  let ?args = "JObject [(''peer-port'', JPrimitive ''51413''), (''encryption'', JString ''required'')]"
  have disp: "handle_json_rpc example_env example_adapter []
        (rpc_request ''session-set'' ?args ''1'') permit_all
      = set_session example_env example_adapter [] (Some ?args) 1 permit_all"
    by (simp add: handle_json_rpc_def rpc_request_def handlers_def find_int_def parse_decimal_def)
  obtain st1 where st1:
    "set_session example_env example_adapter [] (Some ?args) 1 permit_all = Inr ([], st1)"
    using set_session_buffer by blast
  have pe1: "pe (m_ses st1) = pe (m_ses example_adapter)"
    using st1 by (rule set_session_pe)
  have port: "listen_port (m_ses st1) = 51413"
    using st1
    by (auto simp add: set_session_def Let_def set_session_key_def on_session_def
        apply_settings_def log_call_def listen_on_def permit_all_def example_env_def atoi_51413)
  have get: "handle_json_rpc example_env st1 [] (rpc_request ''session-get'' (JObject []) ''2'')
        permit_all
      = Inr (format_session 2 (session_values example_env st1),
             on_session (\<lambda>s. log_call Listen_port (log_call Get_pe_settings
                           (log_call Get_settings (log_call Session_status s)))) st1)"
    by (simp add: handle_json_rpc_def rpc_request_def handlers_def find_int_def parse_decimal_2
        get_session_def permit_all_def)
  have enc: "encryption (session_values example_env st1) = ''tolerated''"
    by (simp add: session_values_def Let_def pe1 example_adapter_def example_session_def)
  have pp: "peer_port (session_values example_env st1) = 51413"
    by (simp add: session_values_def Let_def port)
  show ?thesis using disp st1 get enc pp by auto
qed

text \<open>The document read back does not say \<^verbatim>\<open>required\<close>.\<close>

theorem session_set_encryption_not_applied_witness:
  "\<exists>st1.
     handle_json_rpc example_env example_adapter []
       (rpc_request ''session-set''
          (JObject [(''peer-port'', JPrimitive ''51413''), (''encryption'', JString ''required'')])
          ''1'') permit_all = Inr ([], st1)
     \<and> encryption (session_values example_env st1) \<noteq> ''required''"
proof -
  from session_set_encryption_not_applied obtain st1 where
    "handle_json_rpc example_env example_adapter []
       (rpc_request ''session-set''
          (JObject [(''peer-port'', JPrimitive ''51413''), (''encryption'', JString ''required'')])
          ''1'') permit_all = Inr ([], st1)"
    "encryption (session_values example_env st1) = ''tolerated''"
    by blast
  then show ?thesis by (intro exI [of _ st1]) simp
qed

subsection \<open>The wire status\<close>

text \<open>Outside \<^verbatim>\<open>checking_resume_data\<close> the code and the specification agree.\<close>

lemma torrent_tr_status_agrees:
  "state ts \<noteq> checking_resume_data \<or> paused ts \<and> \<not> auto_managed ts \<Longrightarrow>
     torrent_tr_status ts = tr_status_spec ts"
  by (cases "state ts") (auto simp add: torrent_tr_status_def tr_status_spec_def tr_status_defs)

text \<open>
  C3. The specification maps \<^verbatim>\<open>checking_resume_data\<close> to check (wire value 2). The
  code does not: for a torrent in that state that is not paused,
  \<^verbatim>\<open>torrent_tr_status\<close> returns stopped (0), because the value stored in \<^verbatim>\<open>res\<close>
  is never returned.
\<close>

theorem torrent_tr_status_checking_resume_data:
  "torrent_tr_status \<lparr>paused = False, auto_managed = True, state = checking_resume_data,
      download_payload_rate = 0, total_wanted = 0, total_wanted_done = 0\<rparr> = 0
   \<and> tr_status_spec \<lparr>paused = False, auto_managed = True, state = checking_resume_data,
      download_payload_rate = 0, total_wanted = 0, total_wanted_done = 0\<rparr> = 2
   \<and> TR_STATUS_CHECK = 2"
  by (simp add: torrent_tr_status_def tr_status_spec_def tr_status_defs)

subsection \<open>\<^verbatim>\<open>torrent-set\<close>: what the loop does to each torrent\<close>

lemma torrents_log_call: "torrents (log_call c s) = torrents s"
  by (simp add: log_call_def)

lemma torrents_update_torrent:
  "torrents (update_torrent h f s) = map (\<lambda>t. if handle_id t = h then f t else t) (torrents s)"
  by (simp add: update_torrent_def)

lemmas handle_ops =
  set_download_limit_def set_upload_limit_def move_storage_def set_max_connections_def
  replace_trackers_def prioritize_files_def

lemma change_torrent_length:
  "length (torrents (change_torrent c h s)) = length (torrents s)"
  by (simp add: change_torrent_def Let_def handle_ops torrents_log_call torrents_update_torrent)

lemma change_torrent_id:
  "i < length (torrents s) \<Longrightarrow>
     handle_id (torrents (change_torrent c h s) ! i) = handle_id (torrents s ! i)"
  by (simp add: change_torrent_def Let_def handle_ops torrents_log_call torrents_update_torrent)

lemma change_torrent_dl:
  "i < length (torrents s) \<Longrightarrow> set_dl_limit c \<Longrightarrow>
     download_limit (torrents (change_torrent c h s) ! i) =
       (if handle_id (torrents s ! i) = h then dl_limit c * 1000
        else download_limit (torrents s ! i))"
  by (simp add: change_torrent_def Let_def handle_ops torrents_log_call torrents_update_torrent)

lemma change_torrent_ul:
  "i < length (torrents s) \<Longrightarrow> set_ul_limit c \<Longrightarrow>
     upload_limit (torrents (change_torrent c h s) ! i) =
       (if handle_id (torrents s ! i) = h then ul_limit c * 1000
        else upload_limit (torrents s ! i))"
  by (simp add: change_torrent_def Let_def handle_ops torrents_log_call torrents_update_torrent)

lemma change_torrent_prio:
  "i < length (torrents s) \<Longrightarrow> file_priority c = [] \<Longrightarrow>
     file_priorities (torrents (change_torrent c h s) ! i) = file_priorities (torrents s ! i)"
  by (simp add: change_torrent_def Let_def handle_ops torrents_log_call torrents_update_torrent)

lemma change_all_length:
  "length (torrents (foldl (\<lambda>s h. change_torrent c h s) s hs)) = length (torrents s)"
  by (induction hs arbitrary: s) (simp_all add: change_torrent_length)

lemma change_all_id:
  "i < length (torrents s) \<Longrightarrow>
     handle_id (torrents (foldl (\<lambda>s h. change_torrent c h s) s hs) ! i)
       = handle_id (torrents s ! i)"
  by (induction hs arbitrary: s) (simp_all add: change_torrent_length change_torrent_id)

lemma change_torrent_ul_kept:
  "i < length (torrents s) \<Longrightarrow> \<not> set_ul_limit c \<Longrightarrow>
     upload_limit (torrents (change_torrent c h s) ! i) = upload_limit (torrents s ! i)"
  by (simp add: change_torrent_def Let_def handle_ops torrents_log_call torrents_update_torrent)

lemma change_all_ul_kept:
  "i < length (torrents s) \<Longrightarrow> \<not> set_ul_limit c \<Longrightarrow>
     upload_limit (torrents (foldl (\<lambda>s h. change_torrent c h s) s hs) ! i)
       = upload_limit (torrents s ! i)"
  by (induction hs arbitrary: s) (simp_all add: change_torrent_length change_torrent_ul_kept)

lemma change_all_prio:
  "i < length (torrents s) \<Longrightarrow> file_priority c = [] \<Longrightarrow>
     file_priorities (torrents (foldl (\<lambda>s h. change_torrent c h s) s hs) ! i)
       = file_priorities (torrents s ! i)"
  by (induction hs arbitrary: s) (simp_all add: change_torrent_length change_torrent_prio)

text \<open>
  A torrent whose handle is in the list ends with the limit of the request: the last
  round for its handle sets it, and the rounds for other handles keep it.
\<close>

lemma change_all_dl:
  "i < length (torrents s) \<Longrightarrow> set_dl_limit c \<Longrightarrow> handle_id (torrents s ! i) \<in> set hs \<Longrightarrow>
     download_limit (torrents (foldl (\<lambda>s h. change_torrent c h s) s hs) ! i) = dl_limit c * 1000"
proof (induction hs arbitrary: s rule: rev_induct)
  case Nil
  then show ?case by simp
next
  case (snoc h hs)
  let ?s = "foldl (\<lambda>s h. change_torrent c h s) s hs"
  have len: "i < length (torrents ?s)" using snoc.prems(1) by (simp add: change_all_length)
  have idi: "handle_id (torrents ?s ! i) = handle_id (torrents s ! i)"
    using snoc.prems(1) by (rule change_all_id)
  show ?case
  proof (cases "handle_id (torrents s ! i) = h")
    case True
    then show ?thesis using len idi snoc.prems(2) by (simp add: change_torrent_dl)
  next
    case False
    then have "handle_id (torrents s ! i) \<in> set hs" using snoc.prems(3) by simp
    then have "download_limit (torrents ?s ! i) = dl_limit c * 1000"
      using snoc.IH snoc.prems(1,2) by blast
    then show ?thesis using len idi False snoc.prems(2) by (simp add: change_torrent_dl)
  qed
qed

lemma change_all_ul:
  "i < length (torrents s) \<Longrightarrow> set_ul_limit c \<Longrightarrow> handle_id (torrents s ! i) \<in> set hs \<Longrightarrow>
     upload_limit (torrents (foldl (\<lambda>s h. change_torrent c h s) s hs) ! i) = ul_limit c * 1000"
proof (induction hs arbitrary: s rule: rev_induct)
  case Nil
  then show ?case by simp
next
  case (snoc h hs)
  let ?s = "foldl (\<lambda>s h. change_torrent c h s) s hs"
  have len: "i < length (torrents ?s)" using snoc.prems(1) by (simp add: change_all_length)
  have idi: "handle_id (torrents ?s ! i) = handle_id (torrents s ! i)"
    using snoc.prems(1) by (rule change_all_id)
  show ?case
  proof (cases "handle_id (torrents s ! i) = h")
    case True
    then show ?thesis using len idi snoc.prems(2) by (simp add: change_torrent_ul)
  next
    case False
    then have "handle_id (torrents s ! i) \<in> set hs" using snoc.prems(3) by simp
    then have "upload_limit (torrents ?s ! i) = ul_limit c * 1000"
      using snoc.IH snoc.prems(1,2) by blast
    then show ?thesis using len idi False snoc.prems(2) by (simp add: change_torrent_ul)
  qed
qed

lemma get_torrents_session:
  "torrents (m_ses (snd (get_torrents st args))) = torrents (m_ses st)"
  by (simp add: get_torrents_def Let_def on_session_def log_call_def)

lemma example_selection:
  "fst (get_torrents example_adapter
          (Some (JObject ((''ids'', JArray [JPrimitive ''1'']) # rest)))) = [1]"
  by (simp add: get_torrents_def Let_def parse_ids_def following_tokens_def atoi_def
      strtol_def parse_decimal_def example_adapter_def example_session_def
      example_torrent_def)

lemma example_torrents_after:
  assumes "set_torrent example_env example_adapter [] args 1 permit_all = Inr ([], st')"
  shows "\<exists>t. torrents (m_ses st') = [t] \<and> handle_id t = 1"
proof -
  let ?c = "parse_torrent_changes args"
  let ?hs = "fst (get_torrents example_adapter args)"
  let ?s = "m_ses (snd (get_torrents example_adapter args))"
  have st': "m_ses st' = foldl (\<lambda>s h. change_torrent ?c h s) ?s ?hs"
    using assms by (auto simp add: set_torrent_def Let_def on_session_def permit_all_def)
  have ts: "torrents ?s = [example_torrent]"
    by (simp add: get_torrents_session example_adapter_def example_session_def)
  have "length (torrents (m_ses st')) = 1" by (simp add: st' change_all_length ts)
  then obtain t where t: "torrents (m_ses st') = [t]"
    by (cases "torrents (m_ses st')") auto
  have "handle_id (torrents (m_ses st') ! 0) = handle_id (torrents ?s ! 0)"
    unfolding st' by (rule change_all_id) (simp add: ts)
  then have "handle_id t = 1" by (simp add: t ts example_torrent_def)
  then show ?thesis using t by simp
qed

text \<open>
  What a permitted \<^verbatim>\<open>torrent-set\<close> request leaves in a selected torrent, in the
  arithmetic of the code: the limit variable times 1000 on \<^verbatim>\<open>int\<close>.
\<close>

lemma set_torrent_applied_limits:
  assumes run: "set_torrent e st buf args tag p = Inr (buf', st')"
    and ok: "allow_set_settings p None"
    and t: "t \<in> set (torrents (m_ses st'))"
    and sel: "handle_id t \<in> set (fst (get_torrents st args))"
  shows "(snd (find_int args ''downloadLimit'') \<longrightarrow>
            download_limit t =
              (if find_bool args ''downloadLimited''
               then ucast (fst (find_int args ''downloadLimit'')) * 1000 else 0))
       \<and> (snd (find_int args ''uploadLimit'') \<longrightarrow>
            upload_limit t =
              (if find_bool args ''uploadLimited''
               then ucast (fst (find_int args ''uploadLimit'')) * 1000 else 0))"
proof -
  let ?c = "parse_torrent_changes args"
  let ?hs = "fst (get_torrents st args)"
  let ?s = "m_ses (snd (get_torrents st args))"
  have st': "m_ses st' = foldl (\<lambda>s h. change_torrent ?c h s) ?s ?hs"
    using run ok by (auto simp add: set_torrent_def Let_def on_session_def)
  from t obtain i where i: "i < length (torrents (m_ses st'))"
    and ti: "torrents (m_ses st') ! i = t"
    by (auto simp add: in_set_conv_nth)
  have len: "i < length (torrents ?s)" using i by (simp add: st' change_all_length)
  have "handle_id t = handle_id (torrents ?s ! i)"
    using change_all_id [OF len, of ?c ?hs] ti by (simp add: st')
  then have mem: "handle_id (torrents ?s ! i) \<in> set ?hs" using sel by simp
  have dl: "download_limit t = dl_limit ?c * 1000" if "set_dl_limit ?c"
    using change_all_dl [OF len that mem] ti by (simp add: st')
  have ul: "upload_limit t = ul_limit ?c * 1000" if "set_ul_limit ?c"
    using change_all_ul [OF len that mem] ti by (simp add: st')
  show ?thesis using dl ul by (simp add: parse_torrent_changes_def)
qed

text \<open>
  C4, as stated, fails: the supplied value is a JSON integer, the limit variable and the
  engine's limit are \<^verbatim>\<open>int\<close>. On the example adapter, with every permission granted,
  the request \<^verbatim>\<open>{"ids":[1],"downloadLimit":4294967297,"downloadLimited":true}\<close>
  supplies 4294967297; the value is cut to \<^verbatim>\<open>int\<close>, which gives 1, and torrent 1 ends
  with the download limit 1000, not 4294967297000.
\<close>

theorem set_torrent_limit_of_wide_value:
  "engine_limits
     (handle_json_rpc example_env example_adapter []
        (rpc_request ''torrent-set''
           (JObject [(''ids'', JArray [JPrimitive ''1'']),
                     (''downloadLimit'', JPrimitive ''4294967297''),
                     (''downloadLimited'', JPrimitive ''true'')]) ''1'') permit_all)
     = Some [(1, 1000, 0)]
   \<and> find_int (Some (JObject [(''ids'', JArray [JPrimitive ''1'']),
                            (''downloadLimit'', JPrimitive ''4294967297''),
                            (''downloadLimited'', JPrimitive ''true'')])) ''downloadLimit''
       = (4294967297, True)
   \<and> find_bool (Some (JObject [(''ids'', JArray [JPrimitive ''1'']),
                             (''downloadLimit'', JPrimitive ''4294967297''),
                             (''downloadLimited'', JPrimitive ''true'')])) ''downloadLimited''
   \<and> (1000 :: int) \<noteq> 4294967297 * 1000"
proof -
  let ?a = "JObject [(''ids'', JArray [JPrimitive ''1'']),
                     (''downloadLimit'', JPrimitive ''4294967297''),
                     (''downloadLimited'', JPrimitive ''true'')]"
  let ?args = "Some ?a"
  let ?c = "parse_torrent_changes ?args"
  let ?hs = "fst (get_torrents example_adapter ?args)"
  let ?s = "m_ses (snd (get_torrents example_adapter ?args))"
  have ok: "allow_set_settings permit_all None" by (simp add: permit_all_def)
  have disp: "handle_json_rpc example_env example_adapter []
        (rpc_request ''torrent-set'' ?a ''1'') permit_all
      = set_torrent example_env example_adapter [] ?args 1 permit_all"
    by (simp add: handle_json_rpc_def rpc_request_def handlers_def find_int_def parse_decimal_def)
  obtain st' where run:
    "set_torrent example_env example_adapter [] ?args 1 permit_all = Inr ([], st')"
    using set_torrent_buffer [OF ok] by blast
  obtain t where t: "torrents (m_ses st') = [t]" "handle_id t = 1"
    using example_torrents_after [OF run] by blast
  have mem: "t \<in> set (torrents (m_ses st'))" by (simp add: t)
  have sel: "handle_id t \<in> set (fst (get_torrents example_adapter ?args))"
    by (simp add: example_selection t)
  have fi: "find_int ?args ''downloadLimit'' = (4294967297, True)"
    by (simp add: find_int_def parse_decimal_def)
  have fb: "find_bool ?args ''downloadLimited''" by (simp add: find_bool_def)
  have cut: "(ucast (4294967297 :: int64) :: c_int) = 1" by simp
  have dl: "download_limit t = 1000"
    using set_torrent_applied_limits [OF run ok mem sel] by (simp add: fi fb cut)
  have st': "m_ses st' = foldl (\<lambda>s h. change_torrent ?c h s) ?s ?hs"
    using run ok by (auto simp add: set_torrent_def Let_def on_session_def)
  have ts: "torrents ?s = [example_torrent]"
    by (simp add: get_torrents_session example_adapter_def example_session_def)
  have nul: "\<not> set_ul_limit ?c" by (simp add: parse_torrent_changes_def find_int_def)
  have "upload_limit (torrents (m_ses st') ! 0) = upload_limit (torrents ?s ! 0)"
    unfolding st' by (rule change_all_ul_kept) (simp_all add: ts nul)
  then have ul: "upload_limit t = 0" by (simp add: t ts example_torrent_def)
  have "engine_limits (set_torrent example_env example_adapter [] ?args 1 permit_all)
          = Some [(1, 1000, 0)]"
    by (simp add: run engine_limits_def limits_of_def t dl ul)
  then show ?thesis using disp fi fb by simp
qed

text \<open>
  C4, amended. Let a permitted \<^verbatim>\<open>torrent-set\<close> request run, and let \<open>t\<close> be a
  torrent of the session afterwards whose handle the request selected. If the request
  supplies \<^verbatim>\<open>downloadLimit\<close> and \<^verbatim>\<open>downloadLimited\<close> is false or absent, the download
  limit of \<open>t\<close> is 0, whatever the supplied value. If \<^verbatim>\<open>downloadLimited\<close> is true and
  the supplied value lies between -2147483 and 2147483, the values whose product with 1000
  is an \<^verbatim>\<open>int\<close>, the download limit of \<open>t\<close> is the supplied value times 1000. Likewise
  for \<^verbatim>\<open>uploadLimit\<close> and \<^verbatim>\<open>uploadLimited\<close>.
\<close>

theorem set_torrent_limits:
  assumes run: "set_torrent e st buf args tag p = Inr (buf', st')"
    and ok: "allow_set_settings p None"
    and t: "t \<in> set (torrents (m_ses st'))"
    and sel: "handle_id t \<in> set (fst (get_torrents st args))"
  shows "(snd (find_int args ''downloadLimit'') \<and> \<not> find_bool args ''downloadLimited'' \<longrightarrow>
            download_limit t = 0)
       \<and> (snd (find_int args ''downloadLimit'') \<and> find_bool args ''downloadLimited''
            \<and> - 2147483 \<le> sint (fst (find_int args ''downloadLimit''))
            \<and> sint (fst (find_int args ''downloadLimit'')) \<le> 2147483 \<longrightarrow>
            sint (download_limit t) = sint (fst (find_int args ''downloadLimit'')) * 1000)
       \<and> (snd (find_int args ''uploadLimit'') \<and> \<not> find_bool args ''uploadLimited'' \<longrightarrow>
            upload_limit t = 0)
       \<and> (snd (find_int args ''uploadLimit'') \<and> find_bool args ''uploadLimited''
            \<and> - 2147483 \<le> sint (fst (find_int args ''uploadLimit''))
            \<and> sint (fst (find_int args ''uploadLimit'')) \<le> 2147483 \<longrightarrow>
            sint (upload_limit t) = sint (fst (find_int args ''uploadLimit'')) * 1000)"
proof -
  note w = set_torrent_applied_limits [OF run ok t sel]
  have 1: "snd (find_int args ''downloadLimit'') \<and> \<not> find_bool args ''downloadLimited'' \<longrightarrow>
            download_limit t = 0"
    using w by simp
  have 2: "snd (find_int args ''downloadLimit'') \<and> find_bool args ''downloadLimited''
            \<and> - 2147483 \<le> sint (fst (find_int args ''downloadLimit''))
            \<and> sint (fst (find_int args ''downloadLimit'')) \<le> 2147483 \<longrightarrow>
            sint (download_limit t) = sint (fst (find_int args ''downloadLimit'')) * 1000"
    using w by (auto simp only: times_1000_in_range if_True)
  have 3: "snd (find_int args ''uploadLimit'') \<and> \<not> find_bool args ''uploadLimited'' \<longrightarrow>
            upload_limit t = 0"
    using w by simp
  have 4: "snd (find_int args ''uploadLimit'') \<and> find_bool args ''uploadLimited''
            \<and> - 2147483 \<le> sint (fst (find_int args ''uploadLimit''))
            \<and> sint (fst (find_int args ''uploadLimit'')) \<le> 2147483 \<longrightarrow>
            sint (upload_limit t) = sint (fst (find_int args ''uploadLimit'')) * 1000"
    using w by (auto simp only: times_1000_in_range if_True)
  show ?thesis using 1 2 3 4 by blast
qed

text \<open>
  Scenario S4 on the example adapter: \<^verbatim>\<open>uploadLimit\<close> 250 with \<^verbatim>\<open>uploadLimited\<close>
  true leaves torrent 1 with the upload limit 250000.
\<close>

theorem set_torrent_limits_witness:
  "\<exists>st' t.
     set_torrent example_env example_adapter []
       (Some (JObject [(''ids'', JArray [JPrimitive ''1'']), (''uploadLimit'', JPrimitive ''250''),
                       (''uploadLimited'', JPrimitive ''true'')])) 1 permit_all = Inr ([], st')
     \<and> allow_set_settings permit_all None
     \<and> t \<in> set (torrents (m_ses st'))
     \<and> handle_id t \<in> set (fst (get_torrents example_adapter
          (Some (JObject [(''ids'', JArray [JPrimitive ''1'']), (''uploadLimit'', JPrimitive ''250''),
                          (''uploadLimited'', JPrimitive ''true'')]))))
     \<and> sint (upload_limit t) = 250 * 1000"
proof -
  let ?args = "Some (JObject [(''ids'', JArray [JPrimitive ''1'']),
                       (''uploadLimit'', JPrimitive ''250''), (''uploadLimited'', JPrimitive ''true'')])"
  have ok: "allow_set_settings permit_all None" by (simp add: permit_all_def)
  obtain st' where run:
    "set_torrent example_env example_adapter [] ?args 1 permit_all = Inr ([], st')"
    using set_torrent_buffer [OF ok] by blast
  obtain t where t: "torrents (m_ses st') = [t]" "handle_id t = 1"
    using example_torrents_after [OF run] by blast
  have mem: "t \<in> set (torrents (m_ses st'))" by (simp add: t)
  have sel: "handle_id t \<in> set (fst (get_torrents example_adapter ?args))"
    by (simp add: example_selection t)
  have "sint (upload_limit t) = 250 * 1000"
    using set_torrent_limits [OF run ok mem sel]
    by (simp add: find_int_def find_bool_def parse_decimal_def)
  then show ?thesis using run ok mem sel by blast
qed

text \<open>
  C5. An empty file-priority array on its own applies nothing. The request selects
  torrent 1 of the example adapter, whose three files have priority 0, and carries an
  empty \<^verbatim>\<open>files-wanted\<close>; the handler reads the all-files priority 2 from it, and the
  files of the torrent keep priority 0, where the claim makes every file wanted. The
  all-files priority is applied only inside the block that runs when some array lists
  an index.
\<close>

theorem set_torrent_empty_files_wanted_ignored:
  "\<exists>st' t.
     handle_json_rpc example_env example_adapter []
       (rpc_request ''torrent-set''
          (JObject [(''ids'', JArray [JPrimitive ''1'']), (''files-wanted'', JArray [])]) ''1'')
       permit_all = Inr ([], st')
     \<and> fst (get_torrents example_adapter
          (Some (JObject [(''ids'', JArray [JPrimitive ''1'']), (''files-wanted'', JArray [])])))
         = [1]
     \<and> all_file_prio (parse_torrent_changes
          (Some (JObject [(''ids'', JArray [JPrimitive ''1'']), (''files-wanted'', JArray [])])))
         = 2
     \<and> torrents (m_ses st') = [t] \<and> handle_id t = 1
     \<and> file_priorities t = [0, 0, 0]"
proof -
  let ?a = "JObject [(''ids'', JArray [JPrimitive ''1'']), (''files-wanted'', JArray [])]"
  let ?args = "Some ?a"
  let ?c = "parse_torrent_changes ?args"
  let ?hs = "fst (get_torrents example_adapter ?args)"
  let ?s = "m_ses (snd (get_torrents example_adapter ?args))"
  have ok: "allow_set_settings permit_all None" by (simp add: permit_all_def)
  have disp: "handle_json_rpc example_env example_adapter []
        (rpc_request ''torrent-set'' ?a ''1'') permit_all
      = set_torrent example_env example_adapter [] ?args 1 permit_all"
    by (simp add: handle_json_rpc_def rpc_request_def handlers_def find_int_def parse_decimal_def)
  obtain st' where run:
    "set_torrent example_env example_adapter [] ?args 1 permit_all = Inr ([], st')"
    using set_torrent_buffer [OF ok] by blast
  obtain t where t: "torrents (m_ses st') = [t]" "handle_id t = 1"
    using example_torrents_after [OF run] by blast
  have st': "m_ses st' = foldl (\<lambda>s h. change_torrent ?c h s) ?s ?hs"
    using run ok by (auto simp add: set_torrent_def Let_def on_session_def)
  have ts: "torrents ?s = [example_torrent]"
    by (simp add: get_torrents_session example_adapter_def example_session_def)
  have parsed: "parse_file_priorities ?args = (2, [])"
    by (simp add: parse_file_priorities_def read_file_prio_def)
  have "file_priorities (torrents (m_ses st') ! 0) = file_priorities (torrents ?s ! 0)"
    unfolding st' by (rule change_all_prio) (simp_all add: ts parse_torrent_changes_def parsed)
  then have prio: "file_priorities t = [0, 0, 0]" by (simp add: t ts example_torrent_def)
  have allp: "all_file_prio ?c = 2" by (simp add: parse_torrent_changes_def parsed)
  show ?thesis using disp run t prio allp example_selection by auto
qed

subsection \<open>The speed-limit round trip\<close>

lemma fmt_d_100: "fmt_d 100 = ''100''"
  by (simp add: fmt_d_def dec_int_def dec_nat_small dec_nat_large)

text \<open>
  C6, as stated, fails: permitting the write does not permit the read. A client whose
  permission object permits every write and no read sends the \<^verbatim>\<open>session-set\<close> request
  and then \<^verbatim>\<open>session-get\<close>; the answer is the permission-denied envelope, which
  carries neither field.
\<close>

theorem session_get_denied_after_permitted_set:
  \<open>allow_set_settings permit_writes (Some download_rate_limit)
   \<and> response_text
        (two_requests example_env example_adapter
           (rpc_request ''session-set''
              (JObject [(''speed-limit-down-enabled'', JPrimitive ''true'')]) ''1'')
           (rpc_request ''session-get'' (JObject []) ''2'') permit_writes)
      = Some ''{ "result": "permission denied", "tag": 2}''\<close>
proof -
  let ?args = "JObject [(''speed-limit-down-enabled'', JPrimitive ''true'')]"
  have w: "allow_set_settings permit_writes (Some download_rate_limit)"
    by (simp add: permit_writes_def)
  have disp: "handle_json_rpc example_env example_adapter []
        (rpc_request ''session-set'' ?args ''1'') permit_writes
      = set_session example_env example_adapter [] (Some ?args) 1 permit_writes"
    by (simp add: handle_json_rpc_def rpc_request_def handlers_def find_int_def parse_decimal_def)
  obtain st1 where st1:
    "set_session example_env example_adapter [] (Some ?args) 1 permit_writes = Inr ([], st1)"
    using set_session_buffer by blast
  have get: \<open>handle_json_rpc example_env st1 [] (rpc_request ''session-get'' (JObject []) ''2'')
        permit_writes
      = Inr (''{ "result": "permission denied", "tag": 2}'', st1)\<close>
    by (simp add: handle_json_rpc_def rpc_request_def handlers_def find_int_def parse_decimal_2
        get_session_def permit_writes_def return_failure_def fmt_i64_def dec_int_def
        dec_nat_small)
  show ?thesis using w by (simp add: two_requests_def disp st1 get response_text_def)
qed

text \<open>
  C6, amended. When the permission object of the \<^verbatim>\<open>session-set\<close> request permits
  writing the download rate limit and the one of the \<^verbatim>\<open>session-get\<close> request permits
  reading the adapter's settings, then for every adapter state the request
  \<^verbatim>\<open>{speed-limit-down-enabled: true}\<close> sets the engine rate to 100000 and the
  \<^verbatim>\<open>session-get\<close> that follows appends a success envelope whose text carries
  \<^verbatim>\<open>"speed-limit-down": 100\<close> and \<^verbatim>\<open>"speed-limit-down-enabled": true\<close>; the other
  members are those of the state the write left.
\<close>

theorem speed_limit_down_enabled_round_trip:
  assumes w: "allow_set_settings p (Some download_rate_limit)"
    and r: "allow_get_settings p' None"
  shows \<open>\<exists>st1 st2.
     handle_json_rpc e st buf
       (rpc_request ''session-set''
          (JObject [(''speed-limit-down-enabled'', JPrimitive ''true'')]) tag) p = Inr (buf, st1)
     \<and> int_setting (m_ses st1) download_rate_limit = 100000
     \<and> handle_json_rpc e st1 buf' (rpc_request ''session-get'' a tag') p'
         = Inr (buf'
           @ ''{ "result": "success", "tag": ''
           @ fmt_i64 (word_of_int (parse_decimal tag'))
           @ '', "arguments": { "alt-speed-down": 0,"alt-speed-enabled": false,''
           @ ''"alt-speed-time-begin": 0,"alt-speed-time-enabled": false,''
           @ ''"alt-speed-time-end": 0,"alt-speed-time-day": 0,"alt-speed-up": 0,''
           @ ''"blocklist-url": "","blocklist-enabled": false,"blocklist-size": 0,''
           @ ''"cache-size-mb": ''
           @ fmt_d (cache_size_mb (session_values e st1))
           @ '',"config-dir": "","download-dir": "''
           @ (download_dir (session_values e st1))
           @ ''","download-dir-free-space": ''
           @ fmt_i64 (download_dir_free_space (session_values e st1))
           @ '',"download-queue-size": ''
           @ fmt_d (download_queue_size (session_values e st1))
           @ '',"download-queue-enabled": true,"seed-queue-size": ''
           @ fmt_d (seed_queue_size (session_values e st1))
           @ '',"seed-queue-enabled": true,"speed-limit-down": 100,"speed-limit-up": ''
           @ fmt_d (speed_limit_up (session_values e st1))
           @ '',"speed-limit-down-enabled": true,"speed-limit-up-enabled": ''
           @ to_bool (speed_limit_up_enabled (session_values e st1))
           @ '',"start-added-torrents": ''
           @ to_bool (start_added_torrents (session_values e st1))
           @ '',"units": { "speed-units": ["kB/s", "MB/s", "GB/s", "TB/s"],''
           @ ''"speed-bytes": [1000, 1000000, 1000000000, 1000000000000],''
           @ ''"size-units": ["kB", "MB", "GB", "TB"],''
           @ ''"size-bytes": [1000, 1000000, 1000000000, 1000000000000],''
           @ ''"memory-units": ["kB", "MB", "GB", "TB"],''
           @ ''"memory-bytes": [1000, 1000000, 1000000000, 1000000000000]},''
           @ ''"utp-enabled": ''
           @ to_bool (utp_enabled (session_values e st1))
           @ '',"version": "''
           @ (version (session_values e st1))
           @ ''","peer-port": ''
           @ fmt_d (peer_port (session_values e st1))
           @ '',"peer-limit-global": ''
           @ fmt_d (peer_limit_global (session_values e st1))
           @ '',"encryption": "''
           @ (encryption (session_values e st1))
           @ ''"}}'',
           st2)\<close>
proof -
  let ?args = "JObject [(''speed-limit-down-enabled'', JPrimitive ''true'')]"
  have disp: "handle_json_rpc e st buf (rpc_request ''session-set'' ?args tag) p
      = set_session e st buf (Some ?args) (word_of_int (parse_decimal tag)) p"
    by (simp add: handle_json_rpc_def rpc_request_def handlers_def find_int_def)
  have "\<exists>st1. set_session e st buf (Some ?args) (word_of_int (parse_decimal tag)) p
                 = Inr (buf, st1)
          \<and> int_setting (m_ses st1) download_rate_limit = 100000
          \<and> speed_limit_down_enabled (session_values e st1)
          \<and> speed_limit_down (session_values e st1) = 100"
    using w
    by (simp add: set_session_def Let_def set_session_key_def on_session_def apply_settings_def
        log_call_def empty_pack_def set_int_def session_values_def int_less_def int_div_def
        c_quot_def)
  then obtain st1 where st1:
    "set_session e st buf (Some ?args) (word_of_int (parse_decimal tag)) p = Inr (buf, st1)"
    "int_setting (m_ses st1) download_rate_limit = 100000"
    "speed_limit_down_enabled (session_values e st1)"
    "speed_limit_down (session_values e st1) = 100"
    by blast
  have get: "\<exists>st2. handle_json_rpc e st1 buf' (rpc_request ''session-get'' a tag') p'
         = Inr (buf' @ format_session (word_of_int (parse_decimal tag'))
                         (session_values e st1), st2)"
    using r
    by (simp add: handle_json_rpc_def rpc_request_def handlers_def find_int_def get_session_def)
  have resp: \<open>format_session (word_of_int (parse_decimal tag')) (session_values e st1)
      = ''{ "result": "success", "tag": ''
           @ fmt_i64 (word_of_int (parse_decimal tag'))
           @ '', "arguments": { "alt-speed-down": 0,"alt-speed-enabled": false,''
           @ ''"alt-speed-time-begin": 0,"alt-speed-time-enabled": false,''
           @ ''"alt-speed-time-end": 0,"alt-speed-time-day": 0,"alt-speed-up": 0,''
           @ ''"blocklist-url": "","blocklist-enabled": false,"blocklist-size": 0,''
           @ ''"cache-size-mb": ''
           @ fmt_d (cache_size_mb (session_values e st1))
           @ '',"config-dir": "","download-dir": "''
           @ (download_dir (session_values e st1))
           @ ''","download-dir-free-space": ''
           @ fmt_i64 (download_dir_free_space (session_values e st1))
           @ '',"download-queue-size": ''
           @ fmt_d (download_queue_size (session_values e st1))
           @ '',"download-queue-enabled": true,"seed-queue-size": ''
           @ fmt_d (seed_queue_size (session_values e st1))
           @ '',"seed-queue-enabled": true,"speed-limit-down": 100,"speed-limit-up": ''
           @ fmt_d (speed_limit_up (session_values e st1))
           @ '',"speed-limit-down-enabled": true,"speed-limit-up-enabled": ''
           @ to_bool (speed_limit_up_enabled (session_values e st1))
           @ '',"start-added-torrents": ''
           @ to_bool (start_added_torrents (session_values e st1))
           @ '',"units": { "speed-units": ["kB/s", "MB/s", "GB/s", "TB/s"],''
           @ ''"speed-bytes": [1000, 1000000, 1000000000, 1000000000000],''
           @ ''"size-units": ["kB", "MB", "GB", "TB"],''
           @ ''"size-bytes": [1000, 1000000, 1000000000, 1000000000000],''
           @ ''"memory-units": ["kB", "MB", "GB", "TB"],''
           @ ''"memory-bytes": [1000, 1000000, 1000000000, 1000000000000]},''
           @ ''"utp-enabled": ''
           @ to_bool (utp_enabled (session_values e st1))
           @ '',"version": "''
           @ (version (session_values e st1))
           @ ''","peer-port": ''
           @ fmt_d (peer_port (session_values e st1))
           @ '',"peer-limit-global": ''
           @ fmt_d (peer_limit_global (session_values e st1))
           @ '',"encryption": "''
           @ (encryption (session_values e st1))
           @ ''"}}''\<close>
    by (simp add: format_session_def units_block_def quoted_def st1(3,4) fmt_d_100 to_bool_def)
  show ?thesis using disp st1(1,2) get unfolding resp by auto
qed

text \<open>
  On the example adapter, with every permission granted, the two requests in a row are
  answered with this text.
\<close>

theorem speed_limit_down_enabled_round_trip_witness:
  \<open>allow_set_settings permit_all (Some download_rate_limit)
   \<and> allow_get_settings permit_all None
   \<and> response_text
        (two_requests example_env example_adapter
           (rpc_request ''session-set''
              (JObject [(''speed-limit-down-enabled'', JPrimitive ''true'')]) ''1'')
           (rpc_request ''session-get'' (JObject []) ''2'') permit_all)
      = Some (''{ "result": "success", "tag": 2, "arguments": { "alt-speed-down": 0,''
           @ ''"alt-speed-enabled": false,"alt-speed-time-begin": 0,''
           @ ''"alt-speed-time-enabled": false,"alt-speed-time-end": 0,''
           @ ''"alt-speed-time-day": 0,"alt-speed-up": 0,"blocklist-url": "",''
           @ ''"blocklist-enabled": false,"blocklist-size": 0,"cache-size-mb": 0,''
           @ ''"config-dir": "","download-dir": ".","download-dir-free-space": 0,''
           @ ''"download-queue-size": 0,"download-queue-enabled": true,''
           @ ''"seed-queue-size": 0,"seed-queue-enabled": true,"speed-limit-down": 100,''
           @ ''"speed-limit-up": 0,"speed-limit-down-enabled": true,''
           @ ''"speed-limit-up-enabled": false,"start-added-torrents": false,''
           @ ''"units": { "speed-units": ["kB/s", "MB/s", "GB/s", "TB/s"],''
           @ ''"speed-bytes": [1000, 1000000, 1000000000, 1000000000000],''
           @ ''"size-units": ["kB", "MB", "GB", "TB"],''
           @ ''"size-bytes": [1000, 1000000, 1000000000, 1000000000000],''
           @ ''"memory-units": ["kB", "MB", "GB", "TB"],''
           @ ''"memory-bytes": [1000, 1000000, 1000000000, 1000000000000]},''
           @ ''"utp-enabled": false,"version": "","peer-port": 6881,''
           @ ''"peer-limit-global": 0,"encryption": "tolerated"}}'')\<close>
proof -
  let ?set = "rpc_request ''session-set''
                (JObject [(''speed-limit-down-enabled'', JPrimitive ''true'')]) ''1''"
  let ?get = "rpc_request ''session-get'' (JObject []) ''2''"
  have w: "allow_set_settings permit_all (Some download_rate_limit)"
    by (simp add: permit_all_def)
  have r: "allow_get_settings permit_all None" by (simp add: permit_all_def)
  have doc: "handle_json_rpc example_env example_adapter [] ?set permit_all = Inr ([], st1) \<Longrightarrow>
      session_values example_env st1 =
        \<lparr>cache_size_mb = 0, download_dir = ''.'', download_dir_free_space = 0,
         download_queue_size = 0, seed_queue_size = 0, speed_limit_down = 100,
         speed_limit_up = 0, speed_limit_down_enabled = True, speed_limit_up_enabled = False,
         start_added_torrents = False, utp_enabled = False, version = [], peer_port = 6881,
         peer_limit_global = 0, encryption = ''tolerated''\<rparr>" for st1
    by (auto simp add: handle_json_rpc_def rpc_request_def handlers_def find_int_def
        set_session_def Let_def set_session_key_def on_session_def apply_settings_def
        log_call_def empty_pack_def set_int_def session_values_def int_less_def int_div_def
        int_mul_div_def c_quot_def permit_all_def example_env_def example_adapter_def
        example_session_def flag_paused_def flag_auto_managed_def)
  have nums: "fmt_d 0 = ''0''" "fmt_d 6881 = ''6881''" "fmt_i64 0 = ''0''" "fmt_i64 2 = ''2''"
    by (simp_all add: fmt_d_def fmt_i64_def dec_int_def dec_nat_small dec_nat_large)
  from speed_limit_down_enabled_round_trip
      [OF w r, of example_env example_adapter "[]" "''1''" "[]" "JObject []" "''2''"]
  obtain st1 st2 where
    1: "handle_json_rpc example_env example_adapter [] ?set permit_all = Inr ([], st1)"
    and 2: \<open>handle_json_rpc example_env st1 [] ?get permit_all
         = Inr ([]
           @ ''{ "result": "success", "tag": ''
           @ fmt_i64 (word_of_int (parse_decimal ''2''))
           @ '', "arguments": { "alt-speed-down": 0,"alt-speed-enabled": false,''
           @ ''"alt-speed-time-begin": 0,"alt-speed-time-enabled": false,''
           @ ''"alt-speed-time-end": 0,"alt-speed-time-day": 0,"alt-speed-up": 0,''
           @ ''"blocklist-url": "","blocklist-enabled": false,"blocklist-size": 0,''
           @ ''"cache-size-mb": ''
           @ fmt_d (cache_size_mb (session_values example_env st1))
           @ '',"config-dir": "","download-dir": "''
           @ (download_dir (session_values example_env st1))
           @ ''","download-dir-free-space": ''
           @ fmt_i64 (download_dir_free_space (session_values example_env st1))
           @ '',"download-queue-size": ''
           @ fmt_d (download_queue_size (session_values example_env st1))
           @ '',"download-queue-enabled": true,"seed-queue-size": ''
           @ fmt_d (seed_queue_size (session_values example_env st1))
           @ '',"seed-queue-enabled": true,"speed-limit-down": 100,"speed-limit-up": ''
           @ fmt_d (speed_limit_up (session_values example_env st1))
           @ '',"speed-limit-down-enabled": true,"speed-limit-up-enabled": ''
           @ to_bool (speed_limit_up_enabled (session_values example_env st1))
           @ '',"start-added-torrents": ''
           @ to_bool (start_added_torrents (session_values example_env st1))
           @ '',"units": { "speed-units": ["kB/s", "MB/s", "GB/s", "TB/s"],''
           @ ''"speed-bytes": [1000, 1000000, 1000000000, 1000000000000],''
           @ ''"size-units": ["kB", "MB", "GB", "TB"],''
           @ ''"size-bytes": [1000, 1000000, 1000000000, 1000000000000],''
           @ ''"memory-units": ["kB", "MB", "GB", "TB"],''
           @ ''"memory-bytes": [1000, 1000000, 1000000000, 1000000000000]},''
           @ ''"utp-enabled": ''
           @ to_bool (utp_enabled (session_values example_env st1))
           @ '',"version": "''
           @ (version (session_values example_env st1))
           @ ''","peer-port": ''
           @ fmt_d (peer_port (session_values example_env st1))
           @ '',"peer-limit-global": ''
           @ fmt_d (peer_limit_global (session_values example_env st1))
           @ '',"encryption": "''
           @ (encryption (session_values example_env st1))
           @ ''"}}'',
           st2)\<close>
    by blast
  have \<open>response_text (two_requests example_env example_adapter ?set ?get permit_all)
      = Some (''{ "result": "success", "tag": 2, "arguments": { "alt-speed-down": 0,''
           @ ''"alt-speed-enabled": false,"alt-speed-time-begin": 0,''
           @ ''"alt-speed-time-enabled": false,"alt-speed-time-end": 0,''
           @ ''"alt-speed-time-day": 0,"alt-speed-up": 0,"blocklist-url": "",''
           @ ''"blocklist-enabled": false,"blocklist-size": 0,"cache-size-mb": 0,''
           @ ''"config-dir": "","download-dir": ".","download-dir-free-space": 0,''
           @ ''"download-queue-size": 0,"download-queue-enabled": true,''
           @ ''"seed-queue-size": 0,"seed-queue-enabled": true,"speed-limit-down": 100,''
           @ ''"speed-limit-up": 0,"speed-limit-down-enabled": true,''
           @ ''"speed-limit-up-enabled": false,"start-added-torrents": false,''
           @ ''"units": { "speed-units": ["kB/s", "MB/s", "GB/s", "TB/s"],''
           @ ''"speed-bytes": [1000, 1000000, 1000000000, 1000000000000],''
           @ ''"size-units": ["kB", "MB", "GB", "TB"],''
           @ ''"size-bytes": [1000, 1000000, 1000000000, 1000000000000],''
           @ ''"memory-units": ["kB", "MB", "GB", "TB"],''
           @ ''"memory-bytes": [1000, 1000000, 1000000000, 1000000000000]},''
           @ ''"utp-enabled": false,"version": "","peer-port": 6881,''
           @ ''"peer-limit-global": 0,"encryption": "tolerated"}}'')\<close>
    by (simp add: two_requests_def 1 2 response_text_def doc [OF 1] nums parse_decimal_2
        to_bool_def)
  then show ?thesis using w r by simp
qed

subsection \<open>Permission denial and unknown methods\<close>

text \<open>
  C7. When the method of a request is one of the eleven guarded methods and its guard
  denies the request, the dispatcher's result is exactly the failure envelope with the
  message \<^verbatim>\<open>permission denied\<close> and the tag of the request, and the adapter is the one
  before the request: no engine call is in the trace, nothing of the adapter or of the
  engine has changed.
\<close>

theorem permission_denied:
  assumes m: "find_key (Some tokens) ''method'' JSMN_STRING = Some m"
    and g: "map_of method_guard (tok_text m) = Some allowed"
    and deny: "\<not> allowed p"
  shows \<open>handle_json_rpc e st buf tokens p =
           Inr (''{ "result": "permission denied", "tag": ''
                  @ fmt_i64 (fst (find_int (Some tokens) ''tag'')) @ ''}'', st)\<close>
proof -
  have "(tok_text m, allowed) \<in> set method_guard" using g by (rule map_of_SomeD)
  then consider
      "tok_text m = ''torrent-add''" "allowed = allow_add"
    | "tok_text m = ''torrent-get''" "allowed = allow_list"
    | "tok_text m = ''torrent-set''" "allowed = (\<lambda>p. allow_set_settings p None)"
    | "tok_text m = ''torrent-start''" "allowed = allow_start"
    | "tok_text m = ''torrent-start-now''" "allowed = allow_start"
    | "tok_text m = ''torrent-stop''" "allowed = allow_stop"
    | "tok_text m = ''torrent-verify''" "allowed = allow_recheck"
    | "tok_text m = ''torrent-reannounce''" "allowed = allow_start"
    | "tok_text m = ''torrent-remove''" "allowed = allow_remove"
    | "tok_text m = ''session-stats''" "allowed = allow_session_status"
    | "tok_text m = ''session-get''" "allowed = (\<lambda>p. allow_get_settings p None)"
    unfolding method_guard_def by auto
  then show ?thesis
  proof cases
    case 1
    then show ?thesis using m deny
      by (simp add: handle_json_rpc_def handlers_def add_torrent_def return_failure_def)
  next
    case 2
    then show ?thesis using m deny
      by (simp add: handle_json_rpc_def handlers_def get_torrent_def return_failure_def)
  next
    case 3
    then show ?thesis using m deny
      by (simp add: handle_json_rpc_def handlers_def set_torrent_def return_failure_def)
  next
    case 4
    then show ?thesis using m deny
      by (simp add: handle_json_rpc_def handlers_def start_torrent_def return_failure_def)
  next
    case 5
    then show ?thesis using m deny
      by (simp add: handle_json_rpc_def handlers_def start_torrent_now_def return_failure_def)
  next
    case 6
    then show ?thesis using m deny
      by (simp add: handle_json_rpc_def handlers_def stop_torrent_def return_failure_def)
  next
    case 7
    then show ?thesis using m deny
      by (simp add: handle_json_rpc_def handlers_def verify_torrent_def return_failure_def)
  next
    case 8
    then show ?thesis using m deny
      by (simp add: handle_json_rpc_def handlers_def reannounce_torrent_def return_failure_def)
  next
    case 9
    then show ?thesis using m deny
      by (simp add: handle_json_rpc_def handlers_def remove_torrent_def return_failure_def)
  next
    case 10
    then show ?thesis using m deny
      by (simp add: handle_json_rpc_def handlers_def session_stats_def return_failure_def)
  next
    case 11
    then show ?thesis using m deny
      by (simp add: handle_json_rpc_def handlers_def get_session_def return_failure_def)
  qed
qed

text \<open>Scenario S6: \<^verbatim>\<open>torrent-add\<close> of a magnet link with tag 9, adding denied.\<close>

theorem permission_denied_witness:
  \<open>find_key (Some (rpc_request ''torrent-add''
        (JObject [(''filename'', JString ''magnet:?xt=urn:btih:00'')]) ''9'')) ''method'' JSMN_STRING
      = Some (JString ''torrent-add'')
   \<and> map_of method_guard (tok_text (JString ''torrent-add'')) = Some allow_add
   \<and> \<not> allow_add permit_none
   \<and> handle_json_rpc example_env example_adapter []
        (rpc_request ''torrent-add''
           (JObject [(''filename'', JString ''magnet:?xt=urn:btih:00'')]) ''9'') permit_none
      = Inr (''{ "result": "permission denied", "tag": 9}'', example_adapter)\<close>
proof -
  let ?r = "rpc_request ''torrent-add''
              (JObject [(''filename'', JString ''magnet:?xt=urn:btih:00'')]) ''9''"
  have m: "find_key (Some ?r) ''method'' JSMN_STRING = Some (JString ''torrent-add'')"
    by (simp add: rpc_request_def)
  have g: "map_of method_guard (tok_text (JString ''torrent-add'')) = Some allow_add"
    by (simp add: method_guard_def)
  have deny: "\<not> allow_add permit_none" by (simp add: permit_none_def)
  have tag: "fmt_i64 (fst (find_int (Some ?r) ''tag'')) = ''9''"
    by (simp add: rpc_request_def find_int_def parse_decimal_def fmt_i64_def dec_int_def
        dec_nat_small)
  show ?thesis
    using permission_denied [OF m g deny, of example_env example_adapter "[]"] m g deny
    by (simp add: tag)
qed

text \<open>
  C8. A request without a \<^verbatim>\<open>method\<close> string is answered with the failure envelope
  \<^verbatim>\<open>missing method in request\<close> and tag -1. A request whose method string is the name
  of no handler leaves the response buffer and the adapter as they were.
\<close>

theorem unknown_method:
  \<open>(find_key (Some tokens) ''method'' JSMN_STRING = None \<longrightarrow>
       handle_json_rpc e st buf tokens p =
         Inr (''{ "result": "missing method in request", "tag": -1}'', st))
   \<and> (\<forall>m. find_key (Some tokens) ''method'' JSMN_STRING = Some m
            \<and> tok_text m \<notin> fst ` set handlers \<longrightarrow>
          handle_json_rpc e st buf tokens p = Inr (buf, st))\<close>
proof (intro conjI impI allI)
  assume "find_key (Some tokens) ''method'' JSMN_STRING = None"
  then show \<open>handle_json_rpc e st buf tokens p =
         Inr (''{ "result": "missing method in request", "tag": -1}'', st)\<close>
    by (simp add: handle_json_rpc_def return_failure_def fmt_i64_minus1)
next
  fix m
  assume a: "find_key (Some tokens) ''method'' JSMN_STRING = Some m
               \<and> tok_text m \<notin> fst ` set handlers"
  then have "map_of handlers (tok_text m) = None" by (simp add: map_of_eq_None_iff)
  then show "handle_json_rpc e st buf tokens p = Inr (buf, st)"
    using a by (simp add: handle_json_rpc_def)
qed

text \<open>Scenario S1: the method \<^verbatim>\<open>nonesuch\<close> with tag 7, and a request with a tag only.\<close>

theorem unknown_method_witness:
  \<open>find_key (Some (JObject [(''method'', JString ''nonesuch''), (''tag'', JPrimitive ''7'')]))
      ''method'' JSMN_STRING = Some (JString ''nonesuch'')
   \<and> tok_text (JString ''nonesuch'') \<notin> fst ` set handlers
   \<and> handle_json_rpc example_env example_adapter []
        (JObject [(''method'', JString ''nonesuch''), (''tag'', JPrimitive ''7'')]) permit_all
      = Inr ([], example_adapter)
   \<and> find_key (Some (JObject [(''tag'', JPrimitive ''7'')])) ''method'' JSMN_STRING = None
   \<and> handle_json_rpc example_env example_adapter [] (JObject [(''tag'', JPrimitive ''7'')])
        permit_all
      = Inr (''{ "result": "missing method in request", "tag": -1}'', example_adapter)\<close>
proof -
  let ?r = "JObject [(''method'', JString ''nonesuch''), (''tag'', JPrimitive ''7'')]"
  let ?q = "JObject [(''tag'', JPrimitive ''7'')]"
  have m: "find_key (Some ?r) ''method'' JSMN_STRING = Some (JString ''nonesuch'')" by simp
  have u: "tok_text (JString ''nonesuch'') \<notin> fst ` set handlers" by (simp add: handlers_def)
  have n: "find_key (Some ?q) ''method'' JSMN_STRING = None" by simp
  from unknown_method [of ?r example_env example_adapter "[]" permit_all] m u
  have 1: "handle_json_rpc example_env example_adapter [] ?r permit_all
             = Inr ([], example_adapter)"
    by blast
  from unknown_method [of ?q example_env example_adapter "[]" permit_all] n
  have 2: \<open>handle_json_rpc example_env example_adapter [] ?q permit_all
      = Inr (''{ "result": "missing method in request", "tag": -1}'', example_adapter)\<close>
    by blast
  show ?thesis using m u n 1 2 by blast
qed

subsection \<open>The \<^verbatim>\<open>eta\<close> field\<close>

text \<open>With \<^verbatim>\<open>eta\<close> the only field requested, the object of a torrent holds that member.\<close>

lemma emit_eta:
  \<open>emit_properties e ts [''eta''] field_catalog 0 =
     (case property_value e ts ''eta'' of
        Inl x \<Rightarrow> Inl x
      | Inr v \<Rightarrow> Inr (''"eta": '' @ v))\<close>
  by (simp add: field_catalog_def quoted_def split: sum.splits)

lemma sint_int64_of_int:
  assumes "- 2147483648 \<le> n" "n \<le> 2147483647"
  shows "sint (word_of_int n :: int64) = n"
  using assms by (simp add: int_word_sint)

text \<open>A value that is an \<^verbatim>\<open>int\<close> is printed in full.\<close>

lemma fmt_d_wide_int:
  assumes "- 2147483648 \<le> n" "n \<le> 2147483647"
  shows "fmt_d_wide (word_of_int n) = dec_int n"
proof -
  have "(ucast (word_of_int n :: int64) :: c_int) = word_of_int n"
    by (simp only: ucast_as_sint sint_int64_of_int [OF assms])
  then have "sint (ucast (word_of_int n :: int64) :: c_int) = n"
    using assms by (simp add: sint_small)
  then show ?thesis by (simp add: fmt_d_wide_def fmt_d_def)
qed

lemma eta_value:
  "eta ts =
     Inr (if sint (download_payload_rate ts) \<le> 0 then - 1
          else word_of_int (c_quot (sint (total_wanted ts - total_wanted_done ts))
                              (sint (download_payload_rate ts))))"
proof (cases "sint (download_payload_rate ts) \<le> 0")
  case True
  then show ?thesis by (simp add: eta_def int_le_def)
next
  case False
  then have "0 < sint (download_payload_rate ts)" by simp
  from scast_rate_pos [OF this] False show ?thesis
    by (simp add: eta_def int_le_def c_div_def int_div_def)
qed

text \<open>
  C9, as stated, fails: the quotient is a 64-bit value and the field is printed with
  \<^verbatim>\<open>%d\<close>. For a torrent with 5000000000 bytes left at one byte a second the quotient
  is 5000000000, and the emitted field is 705032704, its low 32 bits.
\<close>

theorem eta_field_of_wide_quotient:
  \<open>emit_properties example_env slow_torrent [''eta''] field_catalog 0
     = Inr ''"eta": 705032704''
   \<and> eta slow_torrent = Inr 5000000000
   \<and> c_quot (sint (total_wanted slow_torrent - total_wanted_done slow_torrent))
              (sint (download_payload_rate slow_torrent)) = 5000000000\<close>
proof -
  have v: "eta slow_torrent = Inr 5000000000"
    by (simp add: eta_value slow_torrent_def c_quot_def)
  have low: "sint (ucast (5000000000 :: int64) :: c_int) = 705032704" by simp
  have "fmt_d_wide 5000000000 = ''705032704''"
    by (simp add: fmt_d_wide_def fmt_d_def low dec_int_def dec_nat_small dec_nat_large)
  then have \<open>emit_properties example_env slow_torrent [''eta''] field_catalog 0
     = Inr ''"eta": 705032704''\<close>
    by (simp add: emit_eta property_value_def v)
  moreover have "c_quot (sint (total_wanted slow_torrent - total_wanted_done slow_torrent))
              (sint (download_payload_rate slow_torrent)) = 5000000000"
    by (simp add: slow_torrent_def c_quot_def)
  ultimately show ?thesis using v by simp
qed

text \<open>
  C9, amended. The \<^verbatim>\<open>eta\<close> expression never divides by a rate that is not positive:
  its value is -1 when the download payload rate is at most 0, and otherwise the
  quotient, rounded towards zero, of total wanted minus total wanted done by the rate; the
  division never faults. The emitted field is \<^verbatim>\<open>"eta": -1\<close> when the rate is at most 0,
  and otherwise the decimal text of the quotient whenever the quotient is an \<^verbatim>\<open>int\<close>,
  that is between -2147483648 and 2147483647.
\<close>

theorem eta_guarded_division:
  \<open>eta ts =
     Inr (if sint (download_payload_rate ts) \<le> 0 then - 1
          else word_of_int (c_quot (sint (total_wanted ts - total_wanted_done ts))
                              (sint (download_payload_rate ts))))
   \<and> (\<forall>x. eta ts \<noteq> Inl x)
   \<and> (sint (download_payload_rate ts) \<le> 0 \<longrightarrow>
         emit_properties e ts [''eta''] field_catalog 0 = Inr ''"eta": -1'')
   \<and> (0 < sint (download_payload_rate ts)
        \<and> - 2147483648 \<le> c_quot (sint (total_wanted ts - total_wanted_done ts))
                                (sint (download_payload_rate ts))
        \<and> c_quot (sint (total_wanted ts - total_wanted_done ts))
                  (sint (download_payload_rate ts)) \<le> 2147483647 \<longrightarrow>
         emit_properties e ts [''eta''] field_catalog 0 =
           Inr (''"eta": '' @ dec_int (c_quot (sint (total_wanted ts - total_wanted_done ts))
                                             (sint (download_payload_rate ts)))))\<close>
proof -
  let ?q = "c_quot (sint (total_wanted ts - total_wanted_done ts))
              (sint (download_payload_rate ts))"
  note 1 = eta_value [of ts]
  then have 2: "\<forall>x. eta ts \<noteq> Inl x" by simp
  have m1: "fmt_d_wide (- 1) = ''-1''"
    using fmt_d_wide_int [of "- 1"] by (simp add: dec_int_def dec_nat_small)
  have 3: \<open>sint (download_payload_rate ts) \<le> 0 \<longrightarrow>
         emit_properties e ts [''eta''] field_catalog 0 = Inr ''"eta": -1''\<close>
    by (simp add: emit_eta property_value_def 1 m1)
  have 4: \<open>0 < sint (download_payload_rate ts) \<and> - 2147483648 \<le> ?q \<and> ?q \<le> 2147483647 \<longrightarrow>
         emit_properties e ts [''eta''] field_catalog 0 = Inr (''"eta": '' @ dec_int ?q)\<close>
    by (simp add: emit_eta property_value_def 1 fmt_d_wide_int)
  show ?thesis using 1 2 3 4 by blast
qed

text \<open>
  The example torrent wants 5000 bytes, has 2000 and downloads 1000 bytes a second: the
  field is 3, and a \<^verbatim>\<open>torrent-get\<close> request for \<^verbatim>\<open>eta\<close> is answered with it. With
  the rate 0 the field is -1.
\<close>

theorem eta_guarded_division_witness:
  \<open>0 < sint (download_payload_rate example_torrent)
   \<and> c_quot (sint (total_wanted example_torrent - total_wanted_done example_torrent))
             (sint (download_payload_rate example_torrent)) = 3
   \<and> emit_properties example_env example_torrent [''eta''] field_catalog 0 = Inr ''"eta": 3''
   \<and> response_text
        (handle_json_rpc example_env example_adapter []
           (rpc_request ''torrent-get'' (JObject [(''fields'', JArray [JString ''eta''])]) ''2'')
           permit_all)
       = Some ''{ "result": "success", "arguments": { "torrents": [{"eta": 3}] }, "tag": 2 }''
   \<and> sint (download_payload_rate (example_torrent\<lparr>download_payload_rate := 0\<rparr>)) \<le> 0
   \<and> emit_properties example_env (example_torrent\<lparr>download_payload_rate := 0\<rparr>) [''eta'']
         field_catalog 0 = Inr ''"eta": -1''\<close>
proof -
  have r: "0 < sint (download_payload_rate example_torrent)"
    by (simp add: example_torrent_def)
  have q: "c_quot (sint (total_wanted example_torrent - total_wanted_done example_torrent))
             (sint (download_payload_rate example_torrent)) = 3"
    by (simp add: example_torrent_def c_quot_def)
  have a: \<open>emit_properties example_env example_torrent [''eta''] field_catalog 0
             = Inr ''"eta": 3''\<close>
    using eta_guarded_division [of example_torrent example_env] r
    by (simp add: q dec_int_def dec_nat_small)
  have z: "sint (download_payload_rate (example_torrent\<lparr>download_payload_rate := 0\<rparr>)) \<le> 0"
    by simp
  have b: \<open>emit_properties example_env (example_torrent\<lparr>download_payload_rate := 0\<rparr>) [''eta'']
         field_catalog 0 = Inr ''"eta": -1''\<close>
    using eta_guarded_division [of "example_torrent\<lparr>download_payload_rate := 0\<rparr>" example_env]
    by simp
  have c: \<open>response_text
        (handle_json_rpc example_env example_adapter []
           (rpc_request ''torrent-get'' (JObject [(''fields'', JArray [JString ''eta''])]) ''2'')
           permit_all)
       = Some ''{ "result": "success", "arguments": { "torrents": [{"eta": 3}] }, "tag": 2 }''\<close>
    by (simp add: handle_json_rpc_def rpc_request_def handlers_def find_int_def parse_decimal_2
        get_torrent_def permit_all_def following_tokens_def parse_ids_def Let_def
        example_adapter_def example_session_def a response_text_def fmt_i64_def dec_int_def
        dec_nat_small)
  show ?thesis using r q a z b c by blast
qed

subsection \<open>The flags of an added torrent\<close>

lemma paused_bit: "(x AND flag_paused \<noteq> 0) = bit x 5"
proof -
  have e: "flag_paused = 2 ^ 5" by (simp add: flag_paused_def)
  show ?thesis unfolding e by (simp only: and_exp_eq_0_iff_not_bit not_not)
qed

lemma auto_managed_bit: "(x AND flag_auto_managed \<noteq> 0) = bit x 6"
proof -
  have e: "flag_auto_managed = 2 ^ 6" by (simp add: flag_auto_managed_def)
  show ?thesis unfolding e by (simp only: and_exp_eq_0_iff_not_bit not_not)
qed

lemma bit_flag_paused: "bit flag_paused n = (n = 5)"
proof -
  have e: "flag_paused = 2 ^ 5" by (simp add: flag_paused_def)
  show ?thesis unfolding e by (subst bit_exp_iff) auto
qed

lemma bit_flag_auto_managed: "bit flag_auto_managed n = (n = 6)"
proof -
  have e: "flag_auto_managed = 2 ^ 6" by (simp add: flag_auto_managed_def)
  show ?thesis unfolding e by (subst bit_exp_iff) auto
qed

lemma prepare_params_flags:
  "(flags (prepare_params st args) AND flag_paused \<noteq> 0) = find_bool args ''paused''
   \<and> (flags (prepare_params st args) AND flag_auto_managed \<noteq> 0)
       = (\<not> find_bool args ''paused'')"
  by (simp add: prepare_params_def Let_def paused_bit auto_managed_bit bit_and_iff bit_or_iff
      bit_not_iff bit_flag_paused bit_flag_auto_managed)

lemma session_add_torrent_calls:
  assumes "session_add_torrent e st buf tag params = Inr (buf', st')"
  shows "\<exists>h. calls (m_ses st') = calls (m_ses st) @ [Add_torrent params, Handle_status h]"
  using assms
  by (auto simp add: session_add_torrent_def Let_def log_call_def split: option.splits)

text \<open>
  A permitted \<^verbatim>\<open>session-set\<close> with \<^verbatim>\<open>start-added-torrents\<close> false leaves a
  template that adds torrents paused and not auto-managed.
\<close>

lemma start_added_torrents_false:
  assumes "allow_set_settings p None"
    and "set_session e st buf
           (Some (JObject [(''start-added-torrents'', JPrimitive ''false'')])) tag p
         = Inr (buf', st')"
  shows "flags (m_params_model st') AND flag_paused \<noteq> 0
         \<and> flags (m_params_model st') AND flag_auto_managed = 0"
proof -
  have "flags (m_params_model st')
          = (flags (m_params_model st) OR flag_paused) AND NOT flag_auto_managed"
    using assms
    by (auto simp add: set_session_def Let_def set_session_key_def on_session_def)
  then have "bit (flags (m_params_model st')) 5 \<and> \<not> bit (flags (m_params_model st')) 6"
    by (simp add: bit_and_iff bit_or_iff bit_not_iff bit_flag_paused bit_flag_auto_managed)
  then show ?thesis using paused_bit auto_managed_bit by blast
qed

text \<open>
  C10. Whenever \<^verbatim>\<open>add_torrent\<close> reaches the engine, the call it makes is
  \<^verbatim>\<open>session::add_torrent\<close> with parameters whose paused flag is set exactly when the
  request's \<^verbatim>\<open>paused\<close> argument is true, and whose auto-managed flag is set exactly
  when it is false or absent, whatever flags the template holds.
\<close>

theorem add_torrent_flags:
  assumes run: "add_torrent e st buf args tag p = Inr (buf', st')"
    and called: "calls (m_ses st') \<noteq> calls (m_ses st)"
  shows "\<exists>params h.
           calls (m_ses st') = calls (m_ses st) @ [Add_torrent params, Handle_status h]
           \<and> (flags params AND flag_paused \<noteq> 0) = find_bool args ''paused''
           \<and> (flags params AND flag_auto_managed \<noteq> 0) = (\<not> find_bool args ''paused'')"
proof -
  let ?pp = "prepare_params st args"
  have "(\<exists>u. session_add_torrent e st buf tag (?pp\<lparr>url := u\<rparr>) = Inr (buf', st'))
      \<or> (\<exists>info. session_add_torrent e st buf tag (?pp\<lparr>ti := Some info\<rparr>) = Inr (buf', st'))"
    using run called
    by (auto simp add: add_torrent_def Let_def split: if_splits sum.splits)
  then have "\<exists>params. flags params = flags ?pp
          \<and> session_add_torrent e st buf tag params = Inr (buf', st')"
  proof (elim disjE exE)
    fix u
    assume "session_add_torrent e st buf tag (?pp\<lparr>url := u\<rparr>) = Inr (buf', st')"
    then show ?thesis by (intro exI [of _ "?pp\<lparr>url := u\<rparr>"]) simp
  next
    fix info
    assume "session_add_torrent e st buf tag (?pp\<lparr>ti := Some info\<rparr>) = Inr (buf', st')"
    then show ?thesis by (intro exI [of _ "?pp\<lparr>ti := Some info\<rparr>"]) simp
  qed
  then obtain params where fl: "flags params = flags ?pp"
    and add: "session_add_torrent e st buf tag params = Inr (buf', st')" by blast
  from session_add_torrent_calls [OF add] obtain h where
    "calls (m_ses st') = calls (m_ses st) @ [Add_torrent params, Handle_status h]" by blast
  then show ?thesis using prepare_params_flags [of st args] fl by auto
qed

text \<open>
  The template of the example adapter adds torrents paused and not auto-managed. A
  \<^verbatim>\<open>torrent-add\<close> request for a magnet link that says nothing about \<^verbatim>\<open>paused\<close>
  reaches the engine with the paused flag cleared and the auto-managed flag set.
\<close>

theorem add_torrent_flags_witness:
  "flags (m_params_model example_adapter) AND flag_paused \<noteq> 0
   \<and> flags (m_params_model example_adapter) AND flag_auto_managed = 0
   \<and> (\<exists>buf' st' params h.
        add_torrent example_env example_adapter []
          (Some (JObject [(''filename'', JString ''magnet:?xt=urn:btih:00'')])) 9 permit_all
          = Inr (buf', st')
        \<and> calls (m_ses st') \<noteq> calls (m_ses example_adapter)
        \<and> calls (m_ses st') = calls (m_ses example_adapter) @ [Add_torrent params, Handle_status h]
        \<and> flags params AND flag_paused = 0
        \<and> flags params AND flag_auto_managed \<noteq> 0)"
proof -
  let ?args = "Some (JObject [(''filename'', JString ''magnet:?xt=urn:btih:00'')])"
  have tmpl: "flags (m_params_model example_adapter) AND flag_paused \<noteq> 0
      \<and> flags (m_params_model example_adapter) AND flag_auto_managed = 0"
    by (simp add: example_adapter_def flag_paused_def flag_auto_managed_def)
  have "\<exists>buf' st'. add_torrent example_env example_adapter [] ?args 9 permit_all = Inr (buf', st')
          \<and> calls (m_ses st') \<noteq> calls (m_ses example_adapter)"
    by (simp add: add_torrent_def Let_def find_string_def session_add_torrent_def log_call_def
        example_env_def example_adapter_def example_session_def permit_all_def)
  then obtain buf' st' where
    run: "add_torrent example_env example_adapter [] ?args 9 permit_all = Inr (buf', st')"
    and called: "calls (m_ses st') \<noteq> calls (m_ses example_adapter)" by blast
  have np: "\<not> find_bool ?args ''paused''" by (simp add: find_bool_def)
  from add_torrent_flags [OF run called] np obtain params h where
    "calls (m_ses st') = calls (m_ses example_adapter) @ [Add_torrent params, Handle_status h]"
    "flags params AND flag_paused = 0" "flags params AND flag_auto_managed \<noteq> 0"
    by auto
  then show ?thesis using tmpl run called by blast
qed

end
